theory Spec2Isabelle
  imports Complex_Main
begin

section \<open>Python values, dictionaries and the store of dictionaries\<close>

text \<open>
  The two modules \<^verbatim>\<open>lisa/modeling/multipredictor.py\<close> (results go to a tracked
  experiment) and \<^verbatim>\<open>lisa/modeling/remote_multipredictor.py\<close> (results go to local
  files) define functions of the same names. The functions of the first keep their names
  here; those of the second carry the prefix \<open>remote_\<close>.

  Labels, regression targets and hyperparameter values are Python objects. The ones the
  code distinguishes are \<^verbatim>\<open>None\<close> (a null cell of a label column), integers, floats
  and strings. Floats are modelled by exact reals.
\<close>

datatype pyval = PNone | PInt int | PFloat real | PStr string

datatype error =
    KeyError pyval
  | AttributeError string
  | ValueError string
  | IndexError
  | ShapeError
  | TypeError string
  | NotFittedError

definition andthen :: "error + 'a \<Rightarrow> ('a \<Rightarrow> error + 'b) \<Rightarrow> error + 'b" where
  "andthen r k = (case r of Inl e \<Rightarrow> Inl e | Inr x \<Rightarrow> k x)"

text \<open>
  A \<^verbatim>\<open>dict\<close> keeps its keys in insertion order: an association list with distinct
  keys. \<^verbatim>\<open>d.setdefault(k, v)\<close> adds the entry only when the key is absent;
  \<^verbatim>\<open>d[k] = v\<close> overwrites in place or appends.
\<close>

type_synonym pydict = "(string \<times> pyval) list"

definition setdefault :: "pydict \<Rightarrow> string \<Rightarrow> pyval \<Rightarrow> pydict" where
  "setdefault d k v = (case map_of d k of None \<Rightarrow> d @ [(k, v)] | Some _ \<Rightarrow> d)"

fun dict_set :: "('k \<times> 'v) list \<Rightarrow> 'k \<Rightarrow> 'v \<Rightarrow> ('k \<times> 'v) list" where
  "dict_set [] k v = [(k, v)]"
| "dict_set ((k', v') # d) k v =
     (if k' = k then (k', v) # d else (k', v') # dict_set d k v)"

definition dict_of_items :: "('k \<times> 'v) list \<Rightarrow> ('k \<times> 'v) list" where
  "dict_of_items items = fold (\<lambda>(k, v) d. dict_set d k v) items []"

text \<open>
  Dictionaries are mutable objects that caller and callee share by reference. The store
  is the list of all dictionaries allocated so far, an address is an index into it.
  \<^verbatim>\<open>params.copy()\<close> allocates a new dictionary with the same entries;
  \<^verbatim>\<open>params.setdefault(k, v)\<close> updates the dictionary the name refers to.
\<close>

type_synonym addr = nat
type_synonym heap = "pydict list"

definition dict_copy :: "heap \<Rightarrow> addr \<Rightarrow> heap \<times> addr" where
  "dict_copy h p = (h @ [h ! p], length h)"

definition heap_setdefault :: "heap \<Rightarrow> addr \<Rightarrow> string \<Rightarrow> pyval \<Rightarrow> heap" where
  "heap_setdefault h p k v = h[p := setdefault (h ! p) k v]"

section \<open>Data frames\<close>

text \<open>
  A feature frame has named columns and rows; the row type is left open. A label frame
  (\<^verbatim>\<open>y_train\<close>, \<^verbatim>\<open>y_test\<close>) has one column, so it is the list of its cells, a
  null cell being \<open>PNone\<close>. \<^verbatim>\<open>y.to_series(0).is_not_null()\<close> is the mask of the
  non-null cells, \<^verbatim>\<open>frame.filter(mask)\<close> keeps the rows whose mask entry is true and
  raises when the mask has another length than the frame.
\<close>

record 'x frame =
  columns :: "string list"
  rows :: "'x list"

definition is_not_null :: "pyval list \<Rightarrow> bool list" where
  "is_not_null ys = map (\<lambda>v. v \<noteq> PNone) ys"

definition filter_rows :: "'a list \<Rightarrow> bool list \<Rightarrow> error + 'a list" where
  "filter_rows xs msk =
     (if length xs \<noteq> length msk then Inl ShapeError
      else Inr (map fst (filter snd (zip xs msk))))"

definition frame_filter :: "'x frame \<Rightarrow> bool list \<Rightarrow> error + 'x frame" where
  "frame_filter X msk =
     andthen (filter_rows (rows X) msk) (\<lambda>rs. Inr (X\<lparr>rows := rs\<rparr>))"

section \<open>The estimator libraries\<close>

text \<open>
  scikit-learn, LightGBM and numpy are not part of the repository. An estimator is
  requested by its constructor and keyword arguments; what the libraries do with a
  request is a parameter of the model, the record \<open>backend\<close>: every call either raises
  or returns. \<open>'m\<close> is the type of estimator objects. \<^verbatim>\<open>model.fit(...)\<close> changes the
  object and returns it, so \<open>sk_fit\<close> returns the object after the call.
  \<open>sk_with_estimators m es\<close> is the wrapper \<open>m\<close> once its sub-estimators, which it
  holds by reference, have become \<open>es\<close>.
\<close>

datatype ctor =
    LogisticRegression pydict
  | OneVsRestClassifier ctor
  | RandomForestClassifier pydict
  | LGBMClassifier pydict
  | LinearRegression pydict
  | RandomForestRegressor pydict
  | LGBMRegressor pydict

record ('x, 'm) backend =
  sk_init :: "ctor \<Rightarrow> error + 'm"
  sk_fit :: "'m \<Rightarrow> 'x frame \<Rightarrow> pyval list \<Rightarrow> real list option \<Rightarrow> error + 'm"
  sk_predict :: "'m \<Rightarrow> 'x frame \<Rightarrow> error + pyval list"
  sk_score :: "'m \<Rightarrow> 'x frame \<Rightarrow> pyval list \<Rightarrow> error + real"
  sk_estimators :: "'m \<Rightarrow> error + 'm list"
  sk_with_estimators :: "'m \<Rightarrow> 'm list \<Rightarrow> 'm"
  sk_feature_importances :: "'m \<Rightarrow> error + real list"
  sk_repr :: "'m \<Rightarrow> string"
  sk_f1_score :: "pyval list \<Rightarrow> pyval list \<Rightarrow> string \<Rightarrow> error + real"
  sk_mean_squared_error :: "pyval list \<Rightarrow> pyval list \<Rightarrow> error + real"
  sk_r2_score :: "pyval list \<Rightarrow> pyval list \<Rightarrow> error + real"
  np_argsort :: "real list \<Rightarrow> nat list"

section \<open>The classifier\<close>

text \<open>
  The table of class weights and the list comprehension
  \<^verbatim>\<open>np.array([class_weights[label] for label in y_train])\<close>, the same in both modules.
  The lookup of a label that is not a key raises \<^verbatim>\<open>KeyError\<close>, at the first such label.
\<close>

definition class_weights :: "(pyval \<times> real) list" where
  "class_weights =
     [(PStr ''run'', 1 / 0.4), (PStr ''jump'', 1 / 0.024), (PStr ''walk'', 1 / 0.576)]"

fun sample_weight :: "pyval list \<Rightarrow> error + real list" where
  "sample_weight [] = Inr []"
| "sample_weight (label # y_train) =
     (case map_of class_weights label of
        None \<Rightarrow> Inl (KeyError label)
      | Some w \<Rightarrow> andthen (sample_weight y_train) (\<lambda>ws. Inr (w # ws)))"

text \<open>The dispatch table \<^verbatim>\<open>models\<close> of \<^verbatim>\<open>classifier\<close>, the same in both modules.\<close>

definition classifier_models :: "(string \<times> (pydict \<Rightarrow> ctor)) list" where
  "classifier_models =
     [(''LR'', \<lambda>params. OneVsRestClassifier (LogisticRegression params)),
      (''RF'', \<lambda>params. RandomForestClassifier params),
      (''LGBM'', \<lambda>params. LGBMClassifier params)]"

text \<open>
  The first three statements of \<^verbatim>\<open>classifier\<close>, the same in both modules: the name
  \<^verbatim>\<open>params\<close> is rebound to a copy, and the defaults go into the copy.
\<close>

definition classifier_params :: "heap \<Rightarrow> addr \<Rightarrow> heap \<times> addr" where
  "classifier_params h params0 =
     (let (h1, params) = dict_copy h params0;
          h2 = heap_setdefault h1 params ''n_jobs'' (PInt (- 1));
          h3 = heap_setdefault h2 params ''random_state'' (PInt 42)
      in (h3, params))"

text \<open>
  \<^verbatim>\<open>classifier\<close> of \<^verbatim>\<open>multipredictor.py\<close>: every family is fitted by one call of
  \<^verbatim>\<open>fit\<close> on the object the dispatch table builds.
\<close>

definition classifier ::
  "('x, 'm) backend \<Rightarrow> heap \<Rightarrow> string \<Rightarrow> 'x frame \<Rightarrow> pyval list \<Rightarrow> addr
     \<Rightarrow> heap \<times> (error + 'm)" where
  "classifier lib h model_name X_train y_train params0 =
     (let (h', params) = classifier_params h params0
      in (h',
          andthen (sample_weight y_train) (\<lambda>sw.
            case map_of classifier_models model_name of
              None \<Rightarrow> Inl (KeyError (PStr model_name))
            | Some mk \<Rightarrow>
                andthen (sk_init lib (mk (h' ! params))) (\<lambda>model.
                  sk_fit lib model X_train y_train (Some sw)))))"

text \<open>
  \<^verbatim>\<open>classifier\<close> of \<^verbatim>\<open>remote_multipredictor.py\<close>. For \<^verbatim>\<open>"LR"\<close> it builds the
  one-vs-rest wrapper, reads its attribute \<^verbatim>\<open>estimators_\<close>, fits each element with
  the weights and returns the wrapper, on which \<^verbatim>\<open>fit\<close> is not called.
\<close>

fun fit_each ::
  "('x, 'm) backend \<Rightarrow> 'm list \<Rightarrow> 'x frame \<Rightarrow> pyval list \<Rightarrow> real list \<Rightarrow> error + 'm list" where
  "fit_each lib [] X y sw = Inr []"
| "fit_each lib (estimator # es) X y sw =
     andthen (sk_fit lib estimator X y (Some sw)) (\<lambda>e'.
       andthen (fit_each lib es X y sw) (\<lambda>es'. Inr (e' # es')))"

definition remote_classifier ::
  "('x, 'm) backend \<Rightarrow> heap \<Rightarrow> string \<Rightarrow> 'x frame \<Rightarrow> pyval list \<Rightarrow> addr
     \<Rightarrow> heap \<times> (error + 'm)" where
  "remote_classifier lib h model_name X_train y_train params0 =
     (let (h', params) = classifier_params h params0
      in (h',
          andthen (sample_weight y_train) (\<lambda>sw.
            if model_name = ''LR'' then
              andthen (sk_init lib (OneVsRestClassifier (LogisticRegression (h' ! params))))
                (\<lambda>model.
                  andthen (sk_estimators lib model) (\<lambda>ests.
                    andthen (fit_each lib ests X_train y_train sw) (\<lambda>ests'.
                      Inr (sk_with_estimators lib model ests'))))
            else
              (case map_of classifier_models model_name of
                 None \<Rightarrow> Inl (KeyError (PStr model_name))
               | Some mk \<Rightarrow>
                   andthen (sk_init lib (mk (h' ! params))) (\<lambda>model.
                     sk_fit lib model X_train y_train (Some sw))))))"

section \<open>The regressor\<close>

definition regressor_models :: "(string \<times> (pydict \<Rightarrow> ctor)) list" where
  "regressor_models =
     [(''LR'', \<lambda>params. LinearRegression params),
      (''RF'', \<lambda>params. RandomForestRegressor params),
      (''LGBM'', \<lambda>params. LGBMRegressor params)]"

text \<open>
  The defaults of \<^verbatim>\<open>regressor\<close>. In \<^verbatim>\<open>multipredictor.py\<close> the last of them is
  \<^verbatim>\<open>class_weight\<close>; \<^verbatim>\<open>remote_multipredictor.py\<close> has the same statements without it.
\<close>

definition remote_regressor_params :: "heap \<Rightarrow> string \<Rightarrow> addr \<Rightarrow> heap \<times> addr" where
  "remote_regressor_params h model_name params0 =
     (let (h1, params) = dict_copy h params0;
          h2 = (if model_name \<noteq> ''LR''
                then heap_setdefault h1 params ''random_state'' (PInt 42) else h1);
          h3 = (if model_name = ''RF''
                then heap_setdefault (heap_setdefault h2 params ''n_estimators'' (PInt 10))
                       params ''max_depth'' (PInt 10)
                else h2);
          h4 = heap_setdefault h3 params ''n_jobs'' (PInt (- 1))
      in (h4, params))"

definition regressor_params :: "heap \<Rightarrow> string \<Rightarrow> addr \<Rightarrow> heap \<times> addr" where
  "regressor_params h model_name params0 =
     (let (h1, params) = dict_copy h params0;
          h2 = (if model_name \<noteq> ''LR''
                then heap_setdefault h1 params ''random_state'' (PInt 42) else h1);
          h3 = (if model_name = ''RF''
                then heap_setdefault (heap_setdefault h2 params ''n_estimators'' (PInt 10))
                       params ''max_depth'' (PInt 10)
                else h2);
          h4 = heap_setdefault h3 params ''n_jobs'' (PInt (- 1));
          h5 = heap_setdefault h4 params ''class_weight'' (PStr ''balanced'')
      in (h5, params))"

text \<open>
  \<^verbatim>\<open>regressor\<close> of \<^verbatim>\<open>multipredictor.py\<close>; it returns
  \<^verbatim>\<open>(y_test_filtered, y_pred, model)\<close>.
\<close>

definition regressor ::
  "('x, 'm) backend \<Rightarrow> heap \<Rightarrow> string \<Rightarrow> 'x frame \<Rightarrow> 'x frame \<Rightarrow> pyval list \<Rightarrow> pyval list
     \<Rightarrow> addr \<Rightarrow> heap \<times> (error + pyval list \<times> pyval list \<times> 'm)" where
  "regressor lib h model_name X_train X_test y_train y_test params0 =
     (let (h', params) = regressor_params h model_name params0
      in (h',
          case map_of regressor_models model_name of
            None \<Rightarrow> Inl (KeyError (PStr model_name))
          | Some mk \<Rightarrow>
              andthen (sk_init lib (mk (h' ! params))) (\<lambda>model.
                let train_non_null_mask = is_not_null y_train in
                andthen (frame_filter X_train train_non_null_mask) (\<lambda>X_train_filtered.
                andthen (filter_rows y_train train_non_null_mask) (\<lambda>y_train_filtered.
                andthen (sk_fit lib model X_train_filtered y_train_filtered None) (\<lambda>model.
                let test_non_null_mask = is_not_null y_test in
                andthen (frame_filter X_test test_non_null_mask) (\<lambda>X_test_filtered.
                andthen (filter_rows y_test test_non_null_mask) (\<lambda>y_test_filtered.
                andthen (sk_predict lib model X_test_filtered) (\<lambda>y_pred.
                  Inr (y_test_filtered, y_pred, model))))))))))"

text \<open>
  \<^verbatim>\<open>regressor\<close> of \<^verbatim>\<open>remote_multipredictor.py\<close>; it scores the model on the filtered
  test rows and returns \<^verbatim>\<open>(y_pred, y_score, model)\<close>.
\<close>

definition remote_regressor ::
  "('x, 'm) backend \<Rightarrow> heap \<Rightarrow> string \<Rightarrow> 'x frame \<Rightarrow> 'x frame \<Rightarrow> pyval list \<Rightarrow> pyval list
     \<Rightarrow> addr \<Rightarrow> heap \<times> (error + pyval list \<times> real \<times> 'm)" where
  "remote_regressor lib h model_name X_train X_test y_train y_test params0 =
     (let (h', params) = remote_regressor_params h model_name params0
      in (h',
          case map_of regressor_models model_name of
            None \<Rightarrow> Inl (KeyError (PStr model_name))
          | Some mk \<Rightarrow>
              andthen (sk_init lib (mk (h' ! params))) (\<lambda>model.
                let train_non_null_mask = is_not_null y_train in
                andthen (frame_filter X_train train_non_null_mask) (\<lambda>X_train_filtered.
                andthen (filter_rows y_train train_non_null_mask) (\<lambda>y_train_filtered.
                andthen (sk_fit lib model X_train_filtered y_train_filtered None) (\<lambda>model.
                let test_non_null_mask = is_not_null y_test in
                andthen (frame_filter X_test test_non_null_mask) (\<lambda>X_test_filtered.
                andthen (filter_rows y_test test_non_null_mask) (\<lambda>y_test_filtered.
                andthen (sk_predict lib model X_test_filtered) (\<lambda>y_pred.
                andthen (sk_score lib model X_test_filtered y_test_filtered) (\<lambda>y_score.
                  Inr (y_pred, y_score, model)))))))))))"

section \<open>Feature importances\<close>

text \<open>
  \<^verbatim>\<open>_feature_importances\<close>, the same in both modules. \<^verbatim>\<open>np.argsort(a)[::-1]\<close> is the
  library's index order, reversed. The dictionary comprehension runs over
  \<^verbatim>\<open>range(len(feature_importances))\<close> and indexes \<^verbatim>\<open>feature_names\<close>, which raises
  \<^verbatim>\<open>IndexError\<close> out of range. \<^verbatim>\<open>sorted(items, key=..., reverse=True)\<close> is stable:
  it is the stable ascending sort of the reversed list, reversed.
\<close>

fun importance_dict ::
  "string list \<Rightarrow> real list \<Rightarrow> nat list \<Rightarrow> nat list \<Rightarrow> (string \<times> real) list
     \<Rightarrow> error + (string \<times> real) list" where
  "importance_dict feature_names fi indices [] d = Inr d"
| "importance_dict feature_names fi indices (i # is) d =
     (if i < length indices \<and> indices ! i < length feature_names \<and> indices ! i < length fi
      then importance_dict feature_names fi indices is
             (dict_set d (feature_names ! (indices ! i)) (fi ! (indices ! i)))
      else Inl IndexError)"

definition sorted_reverse :: "('a \<Rightarrow> 'b::linorder) \<Rightarrow> 'a list \<Rightarrow> 'a list" where
  "sorted_reverse key xs = rev (sort_key key (rev xs))"

definition feature_importances ::
  "('x, 'm) backend \<Rightarrow> 'm \<Rightarrow> 'x frame \<Rightarrow> error + (string \<times> real) list" where
  "feature_importances lib model X_train =
     andthen (sk_feature_importances lib model) (\<lambda>fi.
       let indices = rev (np_argsort lib fi);
           feature_names = columns X_train
       in andthen (importance_dict feature_names fi indices [0..<length fi] [])
            (\<lambda>feature_importance_dict.
               Inr (dict_of_items (sorted_reverse snd feature_importance_dict))))"

section \<open>The runs\<close>

text \<open>
  What a run sends to its sink (the tracking client, the logger, the file system) is the
  list of these events, in order. Values that travel in tuples and to the sink are Python
  values or estimator objects.
\<close>

datatype 'm pyobj = Val pyval | Obj 'm

datatype 'm event =
    StartRun string
  | SetTag string
  | LogParams
  | LogMetric string "'m pyobj"
  | LogArtifact "'m pyobj"
  | SaveFig string
  | JsonDumpImportances string "(string \<times> real) list"
  | InfoConfusionMatrix "nat list list"
  | JsonDumpOutput real real
  | PickleDump string

type_synonym ('m, 'a) logged = "'m event list \<times> (error + 'a)"

definition emit :: "'m event list \<Rightarrow> ('m, unit) logged" where
  "emit evs = (evs, Inr ())"

definition call :: "error + 'a \<Rightarrow> ('m, 'a) logged" where
  "call r = ([], r)"

definition bind_log :: "('m, 'a) logged \<Rightarrow> ('a \<Rightarrow> ('m, 'b) logged) \<Rightarrow> ('m, 'b) logged" where
  "bind_log r k =
     (case r of
        (evs, Inl e) \<Rightarrow> (evs, Inl e)
      | (evs, Inr x) \<Rightarrow> (case k x of (evs', r') \<Rightarrow> (evs @ evs', r')))"

text \<open>
  \<^verbatim>\<open>Series.unique(maintain_order=True)\<close>: each value once, at the place of its first
  occurrence.
\<close>

fun unique_maintain_order :: "'a list \<Rightarrow> 'a list" where
  "unique_maintain_order [] = []"
| "unique_maintain_order (x # xs) = x # unique_maintain_order (filter (\<lambda>y. y \<noteq> x) xs)"

text \<open>
  Modelled from the spec: \<^verbatim>\<open>evaluate.confusion_matrix\<close> of \<^verbatim>\<open>lisa/evaluate.py\<close>,
  which is not among the sources. The spec asks for a confusion matrix keyed by the given
  labels, in their order, of dimensions (number of labels) squared: row \<open>i\<close>, column
  \<open>j\<close> counts the test rows whose true label is the \<open>i\<close>-th and whose predicted label
  is the \<open>j\<close>-th label. It renders the plot to the given path.
\<close>

definition confusion_matrix ::
  "('x, 'm) backend \<Rightarrow> 'm \<Rightarrow> pyval list \<Rightarrow> 'x frame \<Rightarrow> pyval list \<Rightarrow> string
     \<Rightarrow> ('m, nat list list) logged" where
  "confusion_matrix lib model labels X_test y_test path =
     bind_log (call (sk_predict lib model X_test)) (\<lambda>y_pred.
     bind_log (emit [SaveFig path]) (\<lambda>_.
       ([], Inr (map (\<lambda>t. map (\<lambda>p. length (filter (\<lambda>(a, b). a = t \<and> b = p) (zip y_test y_pred)))
                          labels) labels))))"

text \<open>
  The input of a run, after the collaborators that are not part of the sources have done
  their work: the \<^verbatim>\<open>ACTIVITY\<close> column of the full dataset, the feature frames of the
  split (scaled when the family is \<^verbatim>\<open>"LR"\<close>), and the label frames of the split.
  The imbalance check only writes to the log and is left out, as are the rendering of the
  histogram (its file is recorded) and the contents of the logged run parameters.
\<close>

record 'x run_input =
  run_name :: string
  activity :: "pyval list"
  scaled_X_train :: "'x frame"
  scaled_X_test :: "'x frame"
  y1_train :: "pyval list"
  y1_test :: "pyval list"
  y2_train :: "pyval list"
  y2_test :: "pyval list"
  y3_train :: "pyval list"
  y3_test :: "pyval list"

text \<open>\<^verbatim>\<open>_regressor_script\<close> of \<^verbatim>\<open>multipredictor.py\<close>; it returns a tuple of five.\<close>

definition regressor_script ::
  "('x, 'm) backend \<Rightarrow> heap \<Rightarrow> string \<Rightarrow> string \<Rightarrow> 'x frame \<Rightarrow> 'x frame \<Rightarrow> pyval list
     \<Rightarrow> pyval list \<Rightarrow> addr \<Rightarrow> heap \<times> ('m, 'm pyobj list) logged" where
  "regressor_script lib h model_name feature_name X_train X_test y_train y_test hyperparams =
     (let (h', r) = regressor lib h model_name X_train X_test y_train y_test hyperparams
      in (h',
          bind_log (call r) (\<lambda>(y_test_filtered, y_pred, model).
          bind_log (call (sk_mean_squared_error lib y_test_filtered y_pred)) (\<lambda>mse.
          let rmse = sqrt mse in
          bind_log (call (sk_r2_score lib y_test_filtered y_pred)) (\<lambda>r2.
          let y_plot_path = model_name @ ''_'' @ feature_name @ ''_hist.png'' in
          bind_log (emit [SaveFig y_plot_path]) (\<lambda>_.
          bind_log
            (if model_name = ''LGBM'' \<or> model_name = ''RF'' then
               bind_log (call (feature_importances lib model X_train))
                 (\<lambda>sorted_feature_importance_dict.
                    let feature_importances_path =
                          ''feature_importances_'' @ sk_repr lib model @ ''_'' @ feature_name
                            @ ''.json''
                    in bind_log
                         (emit [JsonDumpImportances feature_importances_path
                                  sorted_feature_importance_dict])
                         (\<lambda>_. ([], Inr (Val (PStr feature_importances_path)))))
             else ([], Inr (Val PNone)))
            (\<lambda>feature_importances_path.
               ([], Inr [Val (PFloat r2), Val (PFloat rmse), Obj model,
                         Val (PStr y_plot_path), feature_importances_path]))))))))"

text \<open>
  Unpacking a tuple into four names raises \<^verbatim>\<open>ValueError\<close> unless it has four
  elements. \<^verbatim>\<open>if x:\<close> tests the truth value of an object.
\<close>

definition unpack4 :: "'a list \<Rightarrow> error + 'a \<times> 'a \<times> 'a \<times> 'a" where
  "unpack4 t =
     (case t of
        [a, b, c, d] \<Rightarrow> Inr (a, b, c, d)
      | _ \<Rightarrow> Inl (ValueError ''values to unpack (expected 4)''))"

fun truthy :: "'m pyobj \<Rightarrow> bool" where
  "truthy (Val PNone) = False"
| "truthy (Val (PInt i)) = (i \<noteq> 0)"
| "truthy (Val (PFloat x)) = (x \<noteq> 0)"
| "truthy (Val (PStr s)) = (s \<noteq> [])"
| "truthy (Obj m) = True"

text \<open>The nested run \<^verbatim>\<open>"activity classifier"\<close> of \<^verbatim>\<open>main\<close> in \<^verbatim>\<open>multipredictor.py\<close>.\<close>

definition activity_stage ::
  "('x, 'm) backend \<Rightarrow> heap \<Rightarrow> 'x run_input \<Rightarrow> string \<Rightarrow> addr \<Rightarrow> heap \<times> ('m, unit) logged" where
  "activity_stage lib h inp model hyperparams =
     (let (h', r) = classifier lib h model (scaled_X_train inp) (y1_train inp) hyperparams
      in (h',
          bind_log (emit [StartRun ''activity classifier'']) (\<lambda>_.
          bind_log (call r) (\<lambda>activity_model.
          bind_log (call (sk_score lib activity_model (scaled_X_test inp) (y1_test inp)))
            (\<lambda>y1_score.
          bind_log (emit [LogMetric ''score'' (Val (PFloat y1_score))]) (\<lambda>_.
          bind_log (call (sk_predict lib activity_model (scaled_X_test inp))) (\<lambda>y1_pred.
          bind_log (call (sk_f1_score lib (y1_test inp) y1_pred ''micro'')) (\<lambda>f1.
          bind_log (call (sk_f1_score lib (y1_test inp) y1_pred ''weighted'')) (\<lambda>f1_av.
          bind_log (emit [LogMetric ''f1_score'' (Val (PFloat f1)),
                          LogMetric ''f1_score_weighted'' (Val (PFloat f1_av))]) (\<lambda>_.
          let labels = unique_maintain_order (activity inp);
              cm_plot_path = model @ ''_confusion_matrix.png''
          in bind_log (confusion_matrix lib activity_model labels (scaled_X_test inp)
                         (y1_test inp) cm_plot_path) (\<lambda>cm.
             emit [InfoConfusionMatrix cm, LogArtifact (Val (PStr cm_plot_path))])))))))))))"

text \<open>
  The nested runs \<^verbatim>\<open>"speed regressor"\<close> and \<^verbatim>\<open>"incline regressor"\<close> of \<^verbatim>\<open>main\<close> in
  \<^verbatim>\<open>multipredictor.py\<close>: the same statements on another label pair.
\<close>

definition regressor_stage ::
  "('x, 'm) backend \<Rightarrow> heap \<Rightarrow> string \<Rightarrow> string \<Rightarrow> string \<Rightarrow> 'x frame \<Rightarrow> 'x frame
     \<Rightarrow> pyval list \<Rightarrow> pyval list \<Rightarrow> addr \<Rightarrow> heap \<times> ('m, unit) logged" where
  "regressor_stage lib h run model feature_name X_train X_test y_train y_test hyperparams =
     (let (h', r) = regressor_script lib h model feature_name X_train X_test y_train y_test
                      hyperparams
      in (h',
          bind_log (emit [StartRun run]) (\<lambda>_.
          bind_log r (\<lambda>t.
          bind_log (call (unpack4 t)) (\<lambda>(y_r2, y_rmse, y_plot_path, feature_importances_path).
          bind_log (emit [LogMetric ''score'' y_r2, LogMetric ''rmse'' y_rmse,
                          LogMetric ''r2'' y_r2, LogArtifact y_plot_path]) (\<lambda>_.
            if truthy feature_importances_path
            then emit [LogArtifact feature_importances_path]
            else emit []))))))"

text \<open>
  \<^verbatim>\<open>main\<close> of \<^verbatim>\<open>multipredictor.py\<close>, from the point where the split is at hand. An
  exception leaves the function: the statements after it do not run. The result is the
  store, the events sent, and the exception, if any.
\<close>

definition main ::
  "('x, 'm) backend \<Rightarrow> heap \<Rightarrow> 'x run_input \<Rightarrow> string \<Rightarrow> heap \<times> 'm event list \<times> error option" where
  "main lib h inp model =
     (let pre = [StartRun (run_name inp), SetTag (model @ '' Multipredictor development''),
                 LogParams];
          hyperparams = length h;
          h0 = h @ [[]];
          (h1, r1) = activity_stage lib h0 inp model hyperparams
      in case r1 of
           (evs1, Inl e) \<Rightarrow> (h1, pre @ evs1, Some e)
         | (evs1, Inr _) \<Rightarrow>
             (let (h2, r2) = regressor_stage lib h1 ''speed regressor'' model ''Speed''
                               (scaled_X_train inp) (scaled_X_test inp) (y2_train inp)
                               (y2_test inp) hyperparams
              in case r2 of
                   (evs2, Inl e) \<Rightarrow> (h2, pre @ evs1 @ evs2, Some e)
                 | (evs2, Inr _) \<Rightarrow>
                     (let (h3, r3) = regressor_stage lib h2 ''incline regressor'' model
                                       ''Incline'' (scaled_X_train inp) (scaled_X_test inp)
                                       (y3_train inp) (y3_test inp) hyperparams
                      in case r3 of
                           (evs3, Inl e) \<Rightarrow> (h3, pre @ evs1 @ evs2 @ evs3, Some e)
                         | (evs3, Inr _) \<Rightarrow> (h3, pre @ evs1 @ evs2 @ evs3, None))))"

text \<open>
  \<^verbatim>\<open>main\<close> of \<^verbatim>\<open>remote_multipredictor.py\<close>: the activity classifier only (the two
  regression blocks are commented out), the output record written as one file, and the
  pickles when \<^verbatim>\<open>save\<close> is set; the scaler exists only for \<^verbatim>\<open>"LR"\<close>.
\<close>

definition remote_main ::
  "('x, 'm) backend \<Rightarrow> heap \<Rightarrow> 'x run_input \<Rightarrow> string \<Rightarrow> bool
     \<Rightarrow> heap \<times> 'm event list \<times> error option" where
  "remote_main lib h inp model save =
     (let hyperparams = length h;
          h0 = h @ [[]];
          (h1, r) = remote_classifier lib h0 model (scaled_X_train inp) (y1_train inp)
                      hyperparams;
          (evs, res) =
            bind_log (call r) (\<lambda>activity_model.
            bind_log (call (sk_score lib activity_model (scaled_X_test inp) (y1_test inp)))
              (\<lambda>y1_score.
            bind_log (call (sk_predict lib activity_model (scaled_X_test inp))) (\<lambda>y1_pred.
            bind_log (call (sk_f1_score lib (y1_test inp) y1_pred ''weighted'')) (\<lambda>f1_av.
            let labels = unique_maintain_order (activity inp);
                cm_plot_path = ''confusion_matrix.png''
            in bind_log (confusion_matrix lib activity_model labels (scaled_X_test inp)
                           (y1_test inp) cm_plot_path) (\<lambda>cm.
               bind_log (emit [InfoConfusionMatrix cm, JsonDumpOutput y1_score f1_av]) (\<lambda>_.
                 if save
                 then (if model = ''LR''
                       then emit [PickleDump ''scaler.pkl'', PickleDump ''activity.pkl'']
                       else emit [PickleDump ''activity.pkl''])
                 else emit []))))))
      in (h1, evs, case res of Inl e \<Rightarrow> Some e | Inr _ \<Rightarrow> None))"

section \<open>A library to run the model on\<close>

text \<open>
  A stand-in for the libraries, used to evaluate the functions on concrete inputs. An
  estimator object records its constructor, the arguments of the last \<^verbatim>\<open>fit\<close>, and
  its \<^verbatim>\<open>estimators_\<close> attribute. It follows the libraries in what they refuse:
  \<^item> of the five keywords the code sets (\<^verbatim>\<open>n_jobs\<close>, \<^verbatim>\<open>random_state\<close>,
    \<^verbatim>\<open>n_estimators\<close>, \<^verbatim>\<open>max_depth\<close>, \<^verbatim>\<open>class_weight\<close>), a constructor raises
    \<^verbatim>\<open>TypeError\<close> on one its class does not have: \<^verbatim>\<open>LinearRegression\<close> has only
    \<^verbatim>\<open>n_jobs\<close>, \<^verbatim>\<open>RandomForestRegressor\<close> has no \<^verbatim>\<open>class_weight\<close>,
    \<^verbatim>\<open>LogisticRegression\<close> has no \<^verbatim>\<open>n_estimators\<close> and no \<^verbatim>\<open>max_depth\<close>;
  \<^item> the constructor only stores its arguments, so \<^verbatim>\<open>estimators_\<close> does not exist on
    an object that was never fitted;
  \<^item> \<^verbatim>\<open>fit\<close> of the one-vs-rest wrapper takes no \<^verbatim>\<open>sample_weight\<close>;
  \<^item> \<^verbatim>\<open>fit\<close> refuses an input of zero rows.
  Predictions (the first training label, for every row), scores and importances are
  placeholders.
\<close>

datatype 'x sym_model =
  SymModel (sym_ctor: ctor)
           (sym_fit: "('x frame \<times> pyval list \<times> real list option) option")
           (sym_estimators: "'x sym_model list option")

definition stable_argsort :: "real list \<Rightarrow> nat list" where
  "stable_argsort xs = map snd (sort_key fst (zip xs [0..<length xs]))"

fun unexpected_keyword :: "ctor \<Rightarrow> string option" where
  "unexpected_keyword (LinearRegression ps) =
     find (\<lambda>k. map_of ps k \<noteq> None)
       [''random_state'', ''n_estimators'', ''max_depth'', ''class_weight'']"
| "unexpected_keyword (RandomForestRegressor ps) =
     find (\<lambda>k. map_of ps k \<noteq> None) [''class_weight'']"
| "unexpected_keyword (LogisticRegression ps) =
     find (\<lambda>k. map_of ps k \<noteq> None) [''n_estimators'', ''max_depth'']"
| "unexpected_keyword (OneVsRestClassifier c) = unexpected_keyword c"
| "unexpected_keyword (RandomForestClassifier ps) = None"
| "unexpected_keyword (LGBMClassifier ps) = None"
| "unexpected_keyword (LGBMRegressor ps) = None"

fun takes_sample_weight :: "ctor \<Rightarrow> bool" where
  "takes_sample_weight (OneVsRestClassifier c) = False"
| "takes_sample_weight c = True"

definition symlib :: "('x, 'x sym_model) backend" where
  "symlib =
     \<lparr> sk_init = (\<lambda>c.
         case unexpected_keyword c of
           Some k \<Rightarrow> Inl (TypeError k)
         | None \<Rightarrow> Inr (SymModel c None None)),
       sk_fit = (\<lambda>m X y sw.
         if sw \<noteq> None \<and> \<not> takes_sample_weight (sym_ctor m)
         then Inl (TypeError ''sample_weight'')
         else if rows X = [] then Inl (ValueError ''0 samples'')
         else Inr (SymModel (sym_ctor m) (Some (X, y, sw)) (sym_estimators m))),
       sk_predict = (\<lambda>m X.
         case sym_fit m of
           None \<Rightarrow> Inl NotFittedError
         | Some (X', y, sw) \<Rightarrow>
             Inr (replicate (length (rows X)) (case y of [] \<Rightarrow> PNone | v # _ \<Rightarrow> v))),
       sk_score = (\<lambda>m X y. case sym_fit m of None \<Rightarrow> Inl NotFittedError | Some _ \<Rightarrow> Inr 1),
       sk_estimators = (\<lambda>m.
         case sym_estimators m of
           None \<Rightarrow> Inl (AttributeError ''estimators_'')
         | Some es \<Rightarrow> Inr es),
       sk_with_estimators = (\<lambda>m es. SymModel (sym_ctor m) (sym_fit m) (Some es)),
       sk_feature_importances = (\<lambda>m.
         case sym_fit m of
           None \<Rightarrow> Inl NotFittedError
         | Some (X, y, sw) \<Rightarrow> Inr (map (\<lambda>i. real (i mod 2)) [0..<length (columns X)])),
       sk_repr = (\<lambda>m. ''model''),
       sk_f1_score = (\<lambda>y_true y_pred average. Inr 1),
       sk_mean_squared_error = (\<lambda>y_true y_pred. Inr 0),
       sk_r2_score = (\<lambda>y_true y_pred. Inr 1),
       np_argsort = stable_argsort \<rparr>"

section \<open>Notions used in the statements\<close>

text \<open>
  The two conditional groups of defaults of \<^verbatim>\<open>regressor\<close>, on a dictionary: the seed,
  which the family \<^verbatim>\<open>"LR"\<close> does not get, and the ensemble size and depth, which only
  \<^verbatim>\<open>"RF"\<close> gets.
\<close>

definition seed_default :: "string \<Rightarrow> pydict \<Rightarrow> pydict" where
  "seed_default model_name d = (if model_name \<noteq> ''LR'' then setdefault d ''random_state'' (PInt 42) else d)"

definition rf_defaults :: "string \<Rightarrow> pydict \<Rightarrow> pydict" where
  "rf_defaults model_name d = (if model_name = ''RF''
        then setdefault (setdefault d ''n_estimators'' (PInt 10)) ''max_depth'' (PInt 10) else d)"

text \<open>
  \<open>effective\<close> is the dictionary a defaults block leaves at the address it returns: the
  keyword arguments of the constructor. \<open>keeps_entries d eff\<close>: every key of \<open>d\<close> has in
  \<open>eff\<close> the value it has in \<open>d\<close>. \<open>defaults_to d eff k v\<close>: \<open>eff\<close> has at \<open>k\<close> the value
  of \<open>d\<close>, and \<open>v\<close> when \<open>d\<close> has none.
\<close>

definition effective :: "heap \<times> addr \<Rightarrow> pydict" where
  "effective r = fst r ! snd r"

definition keeps_entries :: "pydict \<Rightarrow> pydict \<Rightarrow> bool" where
  "keeps_entries d eff = list_all (\<lambda>k. map_of eff k = map_of d k) (map fst d)"

definition defaults_to :: "pydict \<Rightarrow> pydict \<Rightarrow> string \<Rightarrow> pyval \<Rightarrow> bool" where
  "defaults_to d eff k v = (map_of eff k = Some (case map_of d k of None \<Rightarrow> v | Some u \<Rightarrow> u))"

text \<open>
  \<open>non_null_rows X y\<close> is the frame \<open>X\<close> restricted to the rows whose cell in the label
  column \<open>y\<close> is not null, \<open>non_null y\<close> the non-null cells of \<open>y\<close>.
  \<open>returned_ctor\<close> reads, from the result of a regressor run on the stand-in library, the
  constructor and keyword arguments of the estimator it returns.
\<close>

definition non_null_rows :: "'x frame \<Rightarrow> pyval list \<Rightarrow> 'x frame" where
  "non_null_rows X y = X\<lparr>rows := map fst (filter (\<lambda>(x, v). v \<noteq> PNone) (zip (rows X) y))\<rparr>"

definition non_null :: "pyval list \<Rightarrow> pyval list" where
  "non_null y = filter (\<lambda>v. v \<noteq> PNone) y"

fun returned_ctor :: "error + 'a \<times> 'b \<times> 'x sym_model \<Rightarrow> error + ctor" where
  "returned_ctor (Inl e) = Inl e"
| "returned_ctor (Inr (a, b, m)) = Inr (sym_ctor m)"

text \<open>
  \<open>first_index xs x\<close> is the position of the first occurrence of \<open>x\<close> in \<open>xs\<close>.
  \<open>keyed_matrix labels y_true y_pred\<close> is the matrix of counts keyed by \<open>labels\<close> on both
  axes. \<open>cm_ok labels y_true ev\<close>: if the event \<open>ev\<close> carries a confusion matrix, it is the
  matrix keyed by \<open>labels\<close> of \<open>y_true\<close> against some predictions.
\<close>

definition first_index :: "'a list \<Rightarrow> 'a \<Rightarrow> nat" where
  "first_index xs x = length (takeWhile (\<lambda>y. y \<noteq> x) xs)"

definition keyed_matrix :: "pyval list \<Rightarrow> pyval list \<Rightarrow> pyval list \<Rightarrow> nat list list" where
  "keyed_matrix labels y_true y_pred =
     map (\<lambda>t. map (\<lambda>p. length (filter (\<lambda>(a, b). a = t \<and> b = p) (zip y_true y_pred))) labels)
       labels"

definition cm_ok :: "pyval list \<Rightarrow> pyval list \<Rightarrow> 'm event \<Rightarrow> bool" where
  "cm_ok labels y_true ev =
     (\<forall>cm. ev = InfoConfusionMatrix cm \<longrightarrow> (\<exists>y_pred. cm = keyed_matrix labels y_true y_pred))"

text \<open>
  A small run: five rows of activity, of which three are the training split; every speed
  label is null, in the training split and in the test split, and the incline labels are
  not.
\<close>

definition example_run :: "nat run_input" where
  "example_run =
     \<lparr>run_name = ''P1'',
      activity = [PStr ''walk'', PStr ''run'', PStr ''walk'', PStr ''jump'', PStr ''run''],
      scaled_X_train = \<lparr>columns = [''f0'', ''f1''], rows = [10, 11, 12]\<rparr>,
      scaled_X_test = \<lparr>columns = [''f0'', ''f1''], rows = [13, 14]\<rparr>,
      y1_train = [PStr ''walk'', PStr ''run'', PStr ''walk''],
      y1_test = [PStr ''jump'', PStr ''run''],
      y2_train = [PNone, PNone, PNone],
      y2_test = [PNone, PNone],
      y3_train = [PFloat 1, PNone, PFloat 3],
      y3_test = [PFloat 1, PFloat 2]\<rparr>"

text \<open>
  A run of standing rows only: the activity is \<^verbatim>\<open>"standing"\<close> on every row, and every
  speed label and every incline label is null.
\<close>

definition standing_run :: "nat run_input" where
  "standing_run =
     \<lparr>run_name = ''P1'',
      activity = [PStr ''standing'', PStr ''standing'', PStr ''standing'', PStr ''standing'',
                  PStr ''standing''],
      scaled_X_train = \<lparr>columns = [''f0'', ''f1''], rows = [10, 11, 12]\<rparr>,
      scaled_X_test = \<lparr>columns = [''f0'', ''f1''], rows = [13, 14]\<rparr>,
      y1_train = [PStr ''standing'', PStr ''standing'', PStr ''standing''],
      y1_test = [PStr ''standing'', PStr ''standing''],
      y2_train = [PNone, PNone, PNone],
      y2_test = [PNone, PNone],
      y3_train = [PNone, PNone, PNone],
      y3_test = [PNone, PNone]\<rparr>"

section \<open>Dictionaries, the store and the defaults\<close>

lemma andthen_Inl [simp]: "andthen (Inl e) k = Inl e"
  by (simp add: andthen_def)

lemma andthen_Inr [simp]: "andthen (Inr x) k = k x"
  by (simp add: andthen_def)

lemma andthen_eq_Inr:
  "andthen r k = Inr y \<longleftrightarrow> (\<exists>x. r = Inr x \<and> k x = Inr y)"
  by (cases r) simp_all

lemma map_of_setdefault:
  "map_of (setdefault d k v) k' =
     (if k' = k then Some (case map_of d k of None \<Rightarrow> v | Some u \<Rightarrow> u) else map_of d k')"
  by (auto simp: setdefault_def map_of_append map_add_def split: option.splits)

lemma keys_setdefault: "fst ` set (setdefault d k v) = insert k (fst ` set d)"
  by (auto simp: setdefault_def map_of_eq_None_iff split: option.splits dest: map_of_SomeD
      intro: rev_image_eqI)

lemma heap_setdefault_new:
  "heap_setdefault (h @ [d]) (length h) k v = h @ [setdefault d k v]"
  by (simp add: heap_setdefault_def)

lemma classifier_params_eq:
  "classifier_params h p =
     (h @ [setdefault (setdefault (h ! p) ''n_jobs'' (PInt (- 1))) ''random_state'' (PInt 42)],
      length h)"
  by (simp add: classifier_params_def dict_copy_def heap_setdefault_new)

lemma remote_regressor_params_eq:
  "remote_regressor_params h name p =
     (h @ [setdefault (rf_defaults name (seed_default name (h ! p))) ''n_jobs'' (PInt (- 1))],
      length h)"
  by (simp add: remote_regressor_params_def dict_copy_def heap_setdefault_new rf_defaults_def seed_default_def)

lemma regressor_params_eq:
  "regressor_params h name p =
     (h @ [setdefault (setdefault (rf_defaults name (seed_default name (h ! p))) ''n_jobs'' (PInt (- 1)))
             ''class_weight'' (PStr ''balanced'')],
      length h)"
  by (simp add: regressor_params_def dict_copy_def heap_setdefault_new rf_defaults_def seed_default_def)

lemma class_weights_keys:
  "map_of class_weights l = None \<longleftrightarrow> l \<notin> {PStr ''run'', PStr ''jump'', PStr ''walk''}"
  by (auto simp: class_weights_def)

lemma class_weights_pos: "map_of class_weights l = Some w \<Longrightarrow> 0 < w"
  by (auto simp: class_weights_def split: if_splits)

lemma sample_weight_eq:
  "sample_weight y =
     (if \<forall>l\<in>set y. l \<in> fst ` set class_weights
      then Inr (map (\<lambda>l. the (map_of class_weights l)) y)
      else Inl (KeyError (hd (filter (\<lambda>l. l \<notin> fst ` set class_weights) y))))"
proof (induction y)
  case Nil
  show ?case by simp
next
  case (Cons l y)
  show ?case
  proof (cases "map_of class_weights l")
    case None
    then have "l \<notin> fst ` set class_weights"
      by (simp add: map_of_eq_None_iff)
    with None show ?thesis by simp
  next
    case (Some w)
    then have "l \<in> fst ` set class_weights"
      using map_of_eq_None_iff[of class_weights l] by simp
    with Some Cons.IH show ?thesis by simp
  qed
qed

lemma keeps_entries_refl [simp]: "keeps_entries d d"
  by (simp add: keeps_entries_def list_all_iff)

lemma keeps_entries_setdefault:
  assumes "keeps_entries d e"
  shows "keeps_entries d (setdefault e k v)"
proof -
  have "map_of (setdefault e k v) k' = map_of d k'" if "k' \<in> fst ` set d" for k'
  proof -
    from that obtain u where u: "map_of d k' = Some u"
      by (cases "map_of d k'") (auto simp: map_of_eq_None_iff)
    from assms that have "map_of e k' = map_of d k'"
      by (auto simp: keeps_entries_def list_all_iff)
    with u show ?thesis
      by (auto simp: map_of_setdefault)
  qed
  then show ?thesis
    by (auto simp: keeps_entries_def list_all_iff)
qed

lemma defaults_to_setdefault_same:
  "map_of e k = map_of d k \<Longrightarrow> defaults_to d (setdefault e k v) k v"
  by (simp add: defaults_to_def map_of_setdefault split: option.splits)

lemma defaults_to_setdefault_other:
  "k' \<noteq> k \<Longrightarrow> defaults_to d e k v \<Longrightarrow> defaults_to d (setdefault e k' v') k v"
  by (simp add: defaults_to_def map_of_setdefault)

lemma map_of_setdefault_other:
  "k' \<noteq> k \<Longrightarrow> map_of (setdefault e k' v') k = map_of e k"
  by (simp add: map_of_setdefault)

text \<open>
  Claim C3, as amended. The defaults are \<^verbatim>\<open>setdefault\<close>s on a copy: every entry of the
  caller's mapping is kept, \<^verbatim>\<open>n_jobs\<close> becomes \<open>-1\<close> when absent in the classifier and in
  both regressors, \<^verbatim>\<open>random_state\<close> becomes \<open>42\<close> when absent in the classifier and, for
  every family but \<^verbatim>\<open>"LR"\<close>, in the regressors; for \<^verbatim>\<open>"LR"\<close> the regressors leave
  \<^verbatim>\<open>random_state\<close> as the caller has it. For \<^verbatim>\<open>"RF"\<close> the regressors default
  \<^verbatim>\<open>n_estimators\<close> and \<^verbatim>\<open>max_depth\<close> to \<open>10\<close>, and a caller's \<^verbatim>\<open>n_estimators\<close> is the
  value in force.
\<close>

theorem defaults_only_when_absent:
  fixes h :: heap and p :: addr and name :: string
  defines "d \<equiv> h ! p"
  defines "c \<equiv> effective (classifier_params h p)"
  defines "r \<equiv> effective (regressor_params h name p)"
  defines "r' \<equiv> effective (remote_regressor_params h name p)"
  shows "keeps_entries d c \<and> defaults_to d c ''n_jobs'' (PInt (- 1))
           \<and> defaults_to d c ''random_state'' (PInt 42)
       \<and> keeps_entries d r \<and> defaults_to d r ''n_jobs'' (PInt (- 1))
       \<and> keeps_entries d r' \<and> defaults_to d r' ''n_jobs'' (PInt (- 1))
       \<and> (name \<noteq> ''LR'' \<longrightarrow> defaults_to d r ''random_state'' (PInt 42)
                              \<and> defaults_to d r' ''random_state'' (PInt 42))
       \<and> (name = ''LR'' \<longrightarrow> map_of r ''random_state'' = map_of d ''random_state''
                              \<and> map_of r' ''random_state'' = map_of d ''random_state'')
       \<and> (name = ''RF'' \<longrightarrow> defaults_to d r ''n_estimators'' (PInt 10)
                              \<and> defaults_to d r ''max_depth'' (PInt 10)
                              \<and> defaults_to d r' ''n_estimators'' (PInt 10)
                              \<and> defaults_to d r' ''max_depth'' (PInt 10))
       \<and> (name = ''RF'' \<and> map_of d ''n_estimators'' = Some v
             \<longrightarrow> map_of r ''n_estimators'' = Some v \<and> map_of r' ''n_estimators'' = Some v)"
proof -
  have c: "c = setdefault (setdefault d ''n_jobs'' (PInt (- 1))) ''random_state'' (PInt 42)"
    by (simp add: c_def d_def effective_def classifier_params_eq)
  have r': "r' = setdefault (rf_defaults name (seed_default name d)) ''n_jobs'' (PInt (- 1))"
    by (simp add: r'_def d_def effective_def remote_regressor_params_eq)
  have r: "r = setdefault r' ''class_weight'' (PStr ''balanced'')"
    by (simp add: r_def r' d_def effective_def regressor_params_eq)
  have kc: "keeps_entries d c"
    by (simp add: c keeps_entries_setdefault)
  have kr': "keeps_entries d r'"
    by (simp add: r' rf_defaults_def seed_default_def keeps_entries_setdefault)
  have kr: "keeps_entries d r"
    by (simp add: r kr' keeps_entries_setdefault)
  have jc: "defaults_to d c ''n_jobs'' (PInt (- 1))"
    by (simp add: c defaults_to_setdefault_same defaults_to_setdefault_other)
  have sc: "defaults_to d c ''random_state'' (PInt 42)"
    by (simp add: c defaults_to_setdefault_same map_of_setdefault_other)
  have jr': "defaults_to d r' ''n_jobs'' (PInt (- 1))"
    by (simp add: r' rf_defaults_def seed_default_def defaults_to_setdefault_same
        map_of_setdefault_other)
  have jr: "defaults_to d r ''n_jobs'' (PInt (- 1))"
    by (simp add: r jr' defaults_to_setdefault_other)
  have seed': "defaults_to d r' ''random_state'' (PInt 42)" if "name \<noteq> ''LR''"
    using that
    by (simp add: r' rf_defaults_def seed_default_def defaults_to_setdefault_same
        defaults_to_setdefault_other)
  have noseed': "map_of r' ''random_state'' = map_of d ''random_state''" if "name = ''LR''"
    using that by (simp add: r' rf_defaults_def seed_default_def map_of_setdefault_other)
  have ne': "defaults_to d r' ''n_estimators'' (PInt 10)" if "name = ''RF''"
    using that
    by (simp add: r' rf_defaults_def seed_default_def defaults_to_setdefault_same
        defaults_to_setdefault_other map_of_setdefault_other)
  have md': "defaults_to d r' ''max_depth'' (PInt 10)" if "name = ''RF''"
    using that
    by (simp add: r' rf_defaults_def seed_default_def defaults_to_setdefault_same
        defaults_to_setdefault_other map_of_setdefault_other)
  have ov': "map_of r' ''n_estimators'' = Some v"
    if "name = ''RF''" "map_of d ''n_estimators'' = Some v"
    using ne'[OF that(1)] that(2) by (simp add: defaults_to_def)
  have up: "defaults_to d r k u" if "defaults_to d r' k u" "k \<noteq> ''class_weight''" for k u
    using that by (simp add: r defaults_to_setdefault_other)
  have upm: "map_of r k = map_of r' k" if "k \<noteq> ''class_weight''" for k
    using that by (simp add: r map_of_setdefault_other)
  show ?thesis
    using kc jc sc kr jr kr' jr' seed' noseed' ne' md' ov'
    by (simp add: up upm)
qed

text \<open>
  The caller overrides the ensemble size of the \<^verbatim>\<open>"RF"\<close> regressor.
\<close>

theorem defaults_only_when_absent_witness:
  "effective (regressor_params [[(''n_estimators'', PInt 50)]] ''RF'' 0) =
     [(''n_estimators'', PInt 50), (''random_state'', PInt 42), (''max_depth'', PInt 10),
      (''n_jobs'', PInt (- 1)), (''class_weight'', PStr ''balanced'')]
   \<and> map_of (effective (regressor_params [[(''n_estimators'', PInt 50)]] ''RF'' 0))
        ''n_estimators'' = Some (PInt 50)
   \<and> defaults_to [(''n_estimators'', PInt 50)]
        (effective (regressor_params [[(''n_estimators'', PInt 50)]] ''RF'' 0))
        ''max_depth'' (PInt 10)"
  using defaults_only_when_absent [of "[[(''n_estimators'', PInt 50)]]" 0 "''RF''" "PInt 50"]
  by (simp add: regressor_params_eq effective_def rf_defaults_def seed_default_def
      setdefault_def)

text \<open>
  Claim C3 as stated fails for the regressors with the family \<^verbatim>\<open>"LR"\<close>: the caller sets
  no seed, and the effective parameters have none.
\<close>

theorem seed_default_counterexample:
  "map_of ([[]] ! 0 :: pydict) ''random_state'' = None
   \<and> \<not> defaults_to ([[]] ! 0) (effective (regressor_params [[]] ''LR'' 0))
         ''random_state'' (PInt 42)
   \<and> \<not> defaults_to ([[]] ! 0) (effective (remote_regressor_params [[]] ''LR'' 0))
         ''random_state'' (PInt 42)"
  by (simp add: regressor_params_eq remote_regressor_params_eq effective_def rf_defaults_def
      seed_default_def setdefault_def defaults_to_def)

section \<open>Sample weights and the frame of the calls\<close>

lemma fst_classifier:
  "fst (classifier lib h name X y p) = fst (classifier_params h p)"
  by (simp add: classifier_def split: prod.splits)

lemma fst_remote_classifier:
  "fst (remote_classifier lib h name X y p) = fst (classifier_params h p)"
  by (simp add: remote_classifier_def split: prod.splits)

lemma fst_regressor:
  "fst (regressor lib h name Xtr Xte ytr yte p) = fst (regressor_params h name p)"
  by (simp add: regressor_def split: prod.splits)

lemma fst_remote_regressor:
  "fst (remote_regressor lib h name Xtr Xte ytr yte p) = fst (remote_regressor_params h name p)"
  by (simp add: remote_regressor_def split: prod.splits)

lemma classifier_KeyError:
  "sample_weight y = Inl e \<Longrightarrow> snd (classifier lib h name X y p) = Inl e"
  by (simp add: classifier_def split: prod.splits)

lemma remote_classifier_KeyError:
  "sample_weight y = Inl e \<Longrightarrow> snd (remote_classifier lib h name X y p) = Inl e"
  by (simp add: remote_classifier_def split: prod.splits)

lemma hd_filter_in:
  "\<not> (\<forall>x\<in>set xs. P x) \<Longrightarrow> hd (filter (\<lambda>x. \<not> P x) xs) \<in> set xs \<and> \<not> P (hd (filter (\<lambda>x. \<not> P x) xs))"
proof -
  assume "\<not> (\<forall>x\<in>set xs. P x)"
  then have ne: "filter (\<lambda>x. \<not> P x) xs \<noteq> []"
    by (simp add: filter_empty_conv)
  then have "hd (filter (\<lambda>x. \<not> P x) xs) \<in> set (filter (\<lambda>x. \<not> P x) xs)"
    by (rule hd_in_set)
  then show ?thesis by simp
qed

text \<open>
  Claim C4. The weight table has the three entries \<^verbatim>\<open>run: 1/0.4\<close>,
  \<^verbatim>\<open>jump: 1/0.024\<close>, \<^verbatim>\<open>walk: 1/0.576\<close>. When every label is a key, the weighting
  succeeds and gives each row the weight of its label. When some label is not a key, it
  fails with the \<^verbatim>\<open>KeyError\<close> of such a label (the spec's \<^verbatim>\<open>UnknownLabelError\<close>), and
  so do both classifiers, whatever the family and the library.
\<close>

theorem sample_weight_table_lookup:
  "map_of class_weights (PStr ''run'') = Some (1 / 0.4)
   \<and> map_of class_weights (PStr ''jump'') = Some (1 / 0.024)
   \<and> map_of class_weights (PStr ''walk'') = Some (1 / 0.576)
   \<and> fst ` set class_weights = {PStr ''run'', PStr ''jump'', PStr ''walk''}
   \<and> ((\<forall>l\<in>set y_train. l \<in> fst ` set class_weights) \<longrightarrow>
        sample_weight y_train = Inr (map (\<lambda>l. the (map_of class_weights l)) y_train))
   \<and> (\<not> (\<forall>l\<in>set y_train. l \<in> fst ` set class_weights) \<longrightarrow>
        (\<exists>l\<in>set y_train. l \<notin> fst ` set class_weights
           \<and> sample_weight y_train = Inl (KeyError l)
           \<and> snd (classifier lib h model_name X_train y_train params) = Inl (KeyError l)
           \<and> snd (remote_classifier lib h model_name X_train y_train params)
               = Inl (KeyError l)))"
proof -
  have tab: "map_of class_weights (PStr ''run'') = Some (1 / 0.4)
      \<and> map_of class_weights (PStr ''jump'') = Some (1 / 0.024)
      \<and> map_of class_weights (PStr ''walk'') = Some (1 / 0.576)
      \<and> fst ` set class_weights = {PStr ''run'', PStr ''jump'', PStr ''walk''}"
    by (simp add: class_weights_def)
  have ok: "sample_weight y_train = Inr (map (\<lambda>l. the (map_of class_weights l)) y_train)"
    if "\<forall>l\<in>set y_train. l \<in> fst ` set class_weights"
    using that by (simp add: sample_weight_eq)
  have bad: "\<exists>l\<in>set y_train. l \<notin> fst ` set class_weights
           \<and> sample_weight y_train = Inl (KeyError l)
           \<and> snd (classifier lib h model_name X_train y_train params) = Inl (KeyError l)
           \<and> snd (remote_classifier lib h model_name X_train y_train params)
               = Inl (KeyError l)"
    if n: "\<not> (\<forall>l\<in>set y_train. l \<in> fst ` set class_weights)"
  proof -
    let ?l = "hd (filter (\<lambda>l. l \<notin> fst ` set class_weights) y_train)"
    have sw: "sample_weight y_train = Inl (KeyError ?l)"
      using n by (simp add: sample_weight_eq)
    have "?l \<in> set y_train \<and> ?l \<notin> fst ` set class_weights"
      using hd_filter_in [of y_train "\<lambda>l. l \<in> fst ` set class_weights"] n by simp
    with sw show ?thesis
      using classifier_KeyError [OF sw] remote_classifier_KeyError [OF sw] by blast
  qed
  from tab ok bad show ?thesis by blast
qed

text \<open>
  Three known labels, and the label \<^verbatim>\<open>stand\<close>.
\<close>

theorem sample_weight_table_lookup_witness:
  "sample_weight [PStr ''run'', PStr ''walk'', PStr ''jump''] = Inr [5 / 2, 125 / 72, 125 / 3]
   \<and> sample_weight [PStr ''run'', PStr ''stand''] = Inl (KeyError (PStr ''stand''))
   \<and> snd (classifier symlib [[]] ''RF'' \<lparr>columns = [''f''], rows = [0 :: nat, 1]\<rparr>
             [PStr ''run'', PStr ''stand''] 0) = Inl (KeyError (PStr ''stand''))"
  using sample_weight_table_lookup
          [of "[PStr ''run'', PStr ''walk'', PStr ''jump'']" symlib "[[]]" "''RF''"
              "\<lparr>columns = [''f''], rows = [0 :: nat, 1]\<rparr>" 0]
        sample_weight_table_lookup
          [of "[PStr ''run'', PStr ''stand'']" symlib "[[]]" "''RF''"
              "\<lparr>columns = [''f''], rows = [0 :: nat, 1]\<rparr>" 0]
  by (simp add: class_weights_def)

text \<open>
  Claim C9. When every label is a key of the weight table, the weight vector has one
  entry per row of the label array, and every entry is strictly positive.
\<close>

theorem sample_weight_length_positive:
  assumes "\<forall>l\<in>set y_train. l \<in> fst ` set class_weights"
  shows "\<exists>sw. sample_weight y_train = Inr sw \<and> length sw = length y_train
            \<and> (\<forall>w\<in>set sw. 0 < w)"
proof -
  have sw: "sample_weight y_train = Inr (map (\<lambda>l. the (map_of class_weights l)) y_train)"
    using assms by (simp add: sample_weight_eq)
  have "0 < the (map_of class_weights l)" if "l \<in> set y_train" for l
  proof -
    from assms that have "l \<in> fst ` set class_weights" by blast
    then obtain w where "map_of class_weights l = Some w"
      using map_of_eq_None_iff [of class_weights l] by (cases "map_of class_weights l") auto
    then show ?thesis
      using class_weights_pos by simp
  qed
  with sw show ?thesis by auto
qed

text \<open>
  Three rows, three weights.
\<close>

theorem sample_weight_length_positive_witness:
  "\<exists>sw. sample_weight [PStr ''walk'', PStr ''walk'', PStr ''jump''] = Inr sw
        \<and> length sw = 3 \<and> sw = [125 / 72, 125 / 72, 125 / 3]"
  using sample_weight_length_positive [of "[PStr ''walk'', PStr ''walk'', PStr ''jump'']"]
  by (simp add: class_weights_def)

text \<open>
  Claim C10. Both classifiers and both regressors leave every dictionary that existed
  before the call as it was, the caller's mapping among them: the defaults go to a
  dictionary at a new address.
\<close>

theorem params_dict_unchanged:
  "take (length h) (fst (classifier lib h model_name X_train y_train params)) = h
   \<and> take (length h) (fst (remote_classifier lib h model_name X_train y_train params)) = h
   \<and> take (length h)
        (fst (regressor lib h model_name X_train X_test y_tr y_te params)) = h
   \<and> take (length h)
        (fst (remote_regressor lib h model_name X_train X_test y_tr y_te params)) = h
   \<and> (params < length h \<longrightarrow>
        fst (classifier lib h model_name X_train y_train params) ! params = h ! params
      \<and> fst (remote_classifier lib h model_name X_train y_train params) ! params = h ! params
      \<and> fst (regressor lib h model_name X_train X_test y_tr y_te params) ! params
          = h ! params
      \<and> fst (remote_regressor lib h model_name X_train X_test y_tr y_te params) ! params
          = h ! params)"
  by (simp add: fst_classifier fst_remote_classifier fst_regressor fst_remote_regressor
      classifier_params_eq regressor_params_eq remote_regressor_params_eq nth_append)

text \<open>
  The caller's mapping after a classifier call, and the store after a regressor call.
\<close>

theorem params_dict_unchanged_witness:
  "fst (classifier symlib [[(''max_depth'', PInt 3)]] ''RF''
          \<lparr>columns = [''f''], rows = [0 :: nat]\<rparr> [PStr ''run''] 0) ! 0
     = [(''max_depth'', PInt 3)]
   \<and> fst (regressor symlib [[(''max_depth'', PInt 3)]] ''RF''
          \<lparr>columns = [''f''], rows = [0 :: nat]\<rparr> \<lparr>columns = [''f''], rows = [0 :: nat]\<rparr>
          [PFloat 1] [PFloat 2] 0)
     = [[(''max_depth'', PInt 3)],
        [(''max_depth'', PInt 3), (''random_state'', PInt 42), (''n_estimators'', PInt 10),
         (''n_jobs'', PInt (- 1)), (''class_weight'', PStr ''balanced'')]]"
  using params_dict_unchanged
          [of "[[(''max_depth'', PInt 3)]]" symlib "''RF''"
              "\<lparr>columns = [''f''], rows = [0 :: nat]\<rparr>" "[PStr ''run'']" 0
              "\<lparr>columns = [''f''], rows = [0 :: nat]\<rparr>" "[PFloat 1]" "[PFloat 2]"]
  by (simp add: fst_regressor regressor_params_eq rf_defaults_def seed_default_def
      setdefault_def)

section \<open>Null filtering in the regressors\<close>

lemma filter_zip_mask:
  "length xs = length ys \<Longrightarrow>
     map fst (filter snd (zip xs (map f ys))) = map fst (filter (\<lambda>(x, v). f v) (zip xs ys))"
  by (induction xs ys rule: list_induct2) simp_all

lemma filter_zip_self:
  "map fst (filter (\<lambda>(x, v). f v) (zip ys ys)) = filter f ys"
  by (induction ys) simp_all

lemma frame_filter_mask:
  "frame_filter X (is_not_null y) =
     (if length (rows X) = length y then Inr (non_null_rows X y) else Inl ShapeError)"
  by (simp add: frame_filter_def filter_rows_def is_not_null_def non_null_rows_def
      filter_zip_mask)

lemma filter_rows_own_mask: "filter_rows y (is_not_null y) = Inr (non_null y)"
  by (simp add: filter_rows_def is_not_null_def non_null_def filter_zip_mask filter_zip_self)

lemma regressor_eq:
  "regressor lib h name X_train X_test y_train y_test p =
     (fst (regressor_params h name p),
      case map_of regressor_models name of
        None \<Rightarrow> Inl (KeyError (PStr name))
      | Some mk \<Rightarrow>
          andthen (sk_init lib (mk (effective (regressor_params h name p)))) (\<lambda>m0.
          andthen (frame_filter X_train (is_not_null y_train)) (\<lambda>Xf.
          andthen (sk_fit lib m0 Xf (non_null y_train) None) (\<lambda>m.
          andthen (frame_filter X_test (is_not_null y_test)) (\<lambda>Xt.
          andthen (sk_predict lib m Xt) (\<lambda>y_pred. Inr (non_null y_test, y_pred, m)))))))"
  by (simp add: regressor_def regressor_params_eq effective_def filter_rows_own_mask Let_def
      split: option.splits)

lemma remote_regressor_eq:
  "remote_regressor lib h name X_train X_test y_train y_test p =
     (fst (remote_regressor_params h name p),
      case map_of regressor_models name of
        None \<Rightarrow> Inl (KeyError (PStr name))
      | Some mk \<Rightarrow>
          andthen (sk_init lib (mk (effective (remote_regressor_params h name p)))) (\<lambda>m0.
          andthen (frame_filter X_train (is_not_null y_train)) (\<lambda>Xf.
          andthen (sk_fit lib m0 Xf (non_null y_train) None) (\<lambda>m.
          andthen (frame_filter X_test (is_not_null y_test)) (\<lambda>Xt.
          andthen (sk_predict lib m Xt) (\<lambda>y_pred.
          andthen (sk_score lib m Xt (non_null y_test)) (\<lambda>y_score.
            Inr (y_pred, y_score, m))))))))"
  by (simp add: remote_regressor_def remote_regressor_params_eq effective_def
      filter_rows_own_mask Let_def split: option.splits)

lemma regressor_returned:
  assumes "regressor lib h model_name X_train X_test y_train y_test params
      = (h', Inr (y_test_filtered, y_pred, model))"
  shows "\<exists>mk m0. map_of regressor_models model_name = Some mk
         \<and> sk_init lib (mk (effective (regressor_params h model_name params))) = Inr m0
         \<and> length (rows X_train) = length y_train \<and> length (rows X_test) = length y_test
         \<and> sk_fit lib m0 (non_null_rows X_train y_train) (non_null y_train) None = Inr model
         \<and> sk_predict lib model (non_null_rows X_test y_test) = Inr y_pred
         \<and> y_test_filtered = non_null y_test"
  using assms
  by (auto simp: regressor_eq frame_filter_mask andthen_eq_Inr split: option.splits if_splits)

lemma remote_regressor_returned:
  assumes "remote_regressor lib h model_name X_train X_test y_train y_test params
      = (h'', Inr (y_pred', y_score, model'))"
  shows "\<exists>mk m0. map_of regressor_models model_name = Some mk
         \<and> sk_init lib (mk (effective (remote_regressor_params h model_name params))) = Inr m0
         \<and> length (rows X_train) = length y_train \<and> length (rows X_test) = length y_test
         \<and> sk_fit lib m0 (non_null_rows X_train y_train) (non_null y_train) None = Inr model'
         \<and> sk_predict lib model' (non_null_rows X_test y_test) = Inr y_pred'
         \<and> sk_score lib model' (non_null_rows X_test y_test) (non_null y_test)
             = Inr y_score"
  using assms
  by (auto simp: remote_regressor_eq frame_filter_mask andthen_eq_Inr
      split: option.splits if_splits)

lemma regressor_returns:
  assumes "map_of regressor_models model_name = Some mk"
    and "sk_init lib (mk (effective (regressor_params h model_name params))) = Inr mi"
    and "length (rows X_train) = length y_train" and "length (rows X_test) = length y_test"
    and "sk_fit lib mi (non_null_rows X_train y_train) (non_null y_train) None = Inr mf"
    and "sk_predict lib mf (non_null_rows X_test y_test) = Inr yp"
  shows "regressor lib h model_name X_train X_test y_train y_test params
            = (fst (regressor_params h model_name params), Inr (non_null y_test, yp, mf))"
  using assms by (simp add: regressor_eq frame_filter_mask)

lemma remote_regressor_returns:
  assumes "map_of regressor_models model_name = Some mk"
    and "sk_init lib (mk (effective (remote_regressor_params h model_name params))) = Inr ri"
    and "length (rows X_train) = length y_train" and "length (rows X_test) = length y_test"
    and "sk_fit lib ri (non_null_rows X_train y_train) (non_null y_train) None = Inr rf"
    and "sk_predict lib rf (non_null_rows X_test y_test) = Inr rp"
    and "sk_score lib rf (non_null_rows X_test y_test) (non_null y_test) = Inr rs"
  shows "remote_regressor lib h model_name X_train X_test y_train y_test params
            = (fst (remote_regressor_params h model_name params), Inr (rp, rs, rf))"
  using assms by (simp add: remote_regressor_eq frame_filter_mask)

text \<open>
  Claim C5. In both modules the regressor conditions the train pair by the null mask of
  its own train labels and the test pair by the null mask of its own test labels, and no
  other label column reaches the function. In both directions: whenever a regressor
  returns, the two pairs had matching numbers of rows, the estimator was fitted on the
  train rows whose own train label is not null, with those labels, and it predicted (and,
  in \<^verbatim>\<open>remote_multipredictor.py\<close>, was scored) on the test rows whose own test label is
  not null; and whenever the pairs match and the library accepts the constructor and
  these calls on these rows, the regressor returns their results.
\<close>

theorem regressor_filters_by_own_null_mask:
  "(regressor lib h model_name X_train X_test y_train y_test params
      = (h', Inr (y_test_filtered, y_pred, model)) \<longrightarrow>
      (\<exists>mk m0. map_of regressor_models model_name = Some mk
         \<and> sk_init lib (mk (effective (regressor_params h model_name params))) = Inr m0
         \<and> length (rows X_train) = length y_train \<and> length (rows X_test) = length y_test
         \<and> sk_fit lib m0 (non_null_rows X_train y_train) (non_null y_train) None = Inr model
         \<and> sk_predict lib model (non_null_rows X_test y_test) = Inr y_pred
         \<and> y_test_filtered = non_null y_test))
   \<and> (remote_regressor lib h model_name X_train X_test y_train y_test params
      = (h'', Inr (y_pred', y_score, model')) \<longrightarrow>
      (\<exists>mk m0. map_of regressor_models model_name = Some mk
         \<and> sk_init lib (mk (effective (remote_regressor_params h model_name params))) = Inr m0
         \<and> length (rows X_train) = length y_train \<and> length (rows X_test) = length y_test
         \<and> sk_fit lib m0 (non_null_rows X_train y_train) (non_null y_train) None = Inr model'
         \<and> sk_predict lib model' (non_null_rows X_test y_test) = Inr y_pred'
         \<and> sk_score lib model' (non_null_rows X_test y_test) (non_null y_test)
             = Inr y_score))
   \<and> (map_of regressor_models model_name = Some mk
        \<and> sk_init lib (mk (effective (regressor_params h model_name params))) = Inr mi
        \<and> length (rows X_train) = length y_train \<and> length (rows X_test) = length y_test
        \<and> sk_fit lib mi (non_null_rows X_train y_train) (non_null y_train) None = Inr mf
        \<and> sk_predict lib mf (non_null_rows X_test y_test) = Inr yp
      \<longrightarrow> regressor lib h model_name X_train X_test y_train y_test params
            = (fst (regressor_params h model_name params), Inr (non_null y_test, yp, mf)))
   \<and> (map_of regressor_models model_name = Some mk
        \<and> sk_init lib (mk (effective (remote_regressor_params h model_name params))) = Inr ri
        \<and> length (rows X_train) = length y_train \<and> length (rows X_test) = length y_test
        \<and> sk_fit lib ri (non_null_rows X_train y_train) (non_null y_train) None = Inr rf
        \<and> sk_predict lib rf (non_null_rows X_test y_test) = Inr rp
        \<and> sk_score lib rf (non_null_rows X_test y_test) (non_null y_test) = Inr rs
      \<longrightarrow> remote_regressor lib h model_name X_train X_test y_train y_test params
            = (fst (remote_regressor_params h model_name params), Inr (rp, rs, rf)))"
proof (intro conjI impI)
  assume "regressor lib h model_name X_train X_test y_train y_test params
      = (h', Inr (y_test_filtered, y_pred, model))"
  then show "\<exists>mk m0. map_of regressor_models model_name = Some mk
         \<and> sk_init lib (mk (effective (regressor_params h model_name params))) = Inr m0
         \<and> length (rows X_train) = length y_train \<and> length (rows X_test) = length y_test
         \<and> sk_fit lib m0 (non_null_rows X_train y_train) (non_null y_train) None = Inr model
         \<and> sk_predict lib model (non_null_rows X_test y_test) = Inr y_pred
         \<and> y_test_filtered = non_null y_test"
    by (rule regressor_returned)
next
  assume "remote_regressor lib h model_name X_train X_test y_train y_test params
      = (h'', Inr (y_pred', y_score, model'))"
  then show "\<exists>mk m0. map_of regressor_models model_name = Some mk
         \<and> sk_init lib (mk (effective (remote_regressor_params h model_name params))) = Inr m0
         \<and> length (rows X_train) = length y_train \<and> length (rows X_test) = length y_test
         \<and> sk_fit lib m0 (non_null_rows X_train y_train) (non_null y_train) None = Inr model'
         \<and> sk_predict lib model' (non_null_rows X_test y_test) = Inr y_pred'
         \<and> sk_score lib model' (non_null_rows X_test y_test) (non_null y_test)
             = Inr y_score"
    by (rule remote_regressor_returned)
next
  assume "map_of regressor_models model_name = Some mk
        \<and> sk_init lib (mk (effective (regressor_params h model_name params))) = Inr mi
        \<and> length (rows X_train) = length y_train \<and> length (rows X_test) = length y_test
        \<and> sk_fit lib mi (non_null_rows X_train y_train) (non_null y_train) None = Inr mf
        \<and> sk_predict lib mf (non_null_rows X_test y_test) = Inr yp"
  then show "regressor lib h model_name X_train X_test y_train y_test params
            = (fst (regressor_params h model_name params), Inr (non_null y_test, yp, mf))"
    by (elim conjE) (rule regressor_returns)
next
  assume "map_of regressor_models model_name = Some mk
        \<and> sk_init lib (mk (effective (remote_regressor_params h model_name params))) = Inr ri
        \<and> length (rows X_train) = length y_train \<and> length (rows X_test) = length y_test
        \<and> sk_fit lib ri (non_null_rows X_train y_train) (non_null y_train) None = Inr rf
        \<and> sk_predict lib rf (non_null_rows X_test y_test) = Inr rp
        \<and> sk_score lib rf (non_null_rows X_test y_test) (non_null y_test) = Inr rs"
  then show "remote_regressor lib h model_name X_train X_test y_train y_test params
            = (fst (remote_regressor_params h model_name params), Inr (rp, rs, rf))"
    by (elim conjE) (rule remote_regressor_returns)
qed

text \<open>
  Three train rows of which the first has a null target, three test rows of which the
  last two have, for both modules: each fits on the second and third train row and
  predicts on the first test row.
\<close>

theorem regressor_filters_by_own_null_mask_witness:
  "regressor symlib [[]] ''LGBM'' \<lparr>columns = [''a'', ''b''], rows = [10 :: nat, 11, 12]\<rparr>
     \<lparr>columns = [''a'', ''b''], rows = [13, 14, 15]\<rparr>
     [PNone, PFloat 1, PFloat 2] [PFloat 3, PNone, PNone] 0
   = ([[], [(''random_state'', PInt 42), (''n_jobs'', PInt (- 1)),
            (''class_weight'', PStr ''balanced'')]],
      Inr ([PFloat 3], [PFloat 1],
           SymModel (LGBMRegressor [(''random_state'', PInt 42), (''n_jobs'', PInt (- 1)),
                                    (''class_weight'', PStr ''balanced'')])
             (Some (\<lparr>columns = [''a'', ''b''], rows = [11, 12]\<rparr>, [PFloat 1, PFloat 2], None))
             None))
   \<and> remote_regressor symlib [[]] ''LGBM'' \<lparr>columns = [''a'', ''b''], rows = [10 :: nat, 11, 12]\<rparr>
     \<lparr>columns = [''a'', ''b''], rows = [13, 14, 15]\<rparr>
     [PNone, PFloat 1, PFloat 2] [PFloat 3, PNone, PNone] 0
   = ([[], [(''random_state'', PInt 42), (''n_jobs'', PInt (- 1))]],
      Inr ([PFloat 1], 1,
           SymModel (LGBMRegressor [(''random_state'', PInt 42), (''n_jobs'', PInt (- 1))])
             (Some (\<lparr>columns = [''a'', ''b''], rows = [11, 12]\<rparr>, [PFloat 1, PFloat 2], None))
             None))
   \<and> non_null_rows \<lparr>columns = [''a'', ''b''], rows = [10 :: nat, 11, 12]\<rparr>
        [PNone, PFloat 1, PFloat 2] = \<lparr>columns = [''a'', ''b''], rows = [11, 12]\<rparr>
   \<and> non_null_rows \<lparr>columns = [''a'', ''b''], rows = [13 :: nat, 14, 15]\<rparr>
        [PFloat 3, PNone, PNone] = \<lparr>columns = [''a'', ''b''], rows = [13]\<rparr>"
proof -
  let ?Xtr = "\<lparr>columns = [''a'', ''b''], rows = [10 :: nat, 11, 12]\<rparr>"
  let ?Xte = "\<lparr>columns = [''a'', ''b''], rows = [13 :: nat, 14, 15]\<rparr>"
  let ?ytr = "[PNone, PFloat 1, PFloat 2]"
  let ?yte = "[PFloat 3, PNone, PNone]"
  let ?pt = "[(''random_state'', PInt 42), (''n_jobs'', PInt (- 1)),
              (''class_weight'', PStr ''balanced'')]"
  let ?pr = "[(''random_state'', PInt 42), (''n_jobs'', PInt (- 1))]"
  let ?fitted = "Some (\<lparr>columns = [''a'', ''b''], rows = [11 :: nat, 12]\<rparr>,
                       [PFloat 1, PFloat 2], None :: real list option)"
  have nn: "non_null_rows ?Xtr ?ytr = \<lparr>columns = [''a'', ''b''], rows = [11, 12]\<rparr>"
    "non_null_rows ?Xte ?yte = \<lparr>columns = [''a'', ''b''], rows = [13]\<rparr>"
    "non_null ?ytr = [PFloat 1, PFloat 2]" "non_null ?yte = [PFloat 3]"
    by (simp_all add: non_null_rows_def non_null_def)
  have et: "effective (regressor_params [[]] ''LGBM'' 0) = ?pt"
    by (simp add: regressor_params_eq effective_def rf_defaults_def seed_default_def
        setdefault_def)
  have er: "effective (remote_regressor_params [[]] ''LGBM'' 0) = ?pr"
    by (simp add: remote_regressor_params_eq effective_def rf_defaults_def seed_default_def
        setdefault_def)
  have ft: "fst (regressor_params [[]] ''LGBM'' 0) = [[], ?pt]"
    by (simp add: regressor_params_eq rf_defaults_def seed_default_def setdefault_def)
  have fr: "fst (remote_regressor_params [[]] ''LGBM'' 0) = [[], ?pr]"
    by (simp add: remote_regressor_params_eq rf_defaults_def seed_default_def setdefault_def)
  have mk: "map_of regressor_models ''LGBM'' = Some LGBMRegressor"
    by (simp add: regressor_models_def)
  have lib:
    "sk_init symlib (LGBMRegressor ?pt) = Inr (SymModel (LGBMRegressor ?pt) None None)"
    "sk_init symlib (LGBMRegressor ?pr) = Inr (SymModel (LGBMRegressor ?pr) None None)"
    "sk_fit symlib (SymModel (LGBMRegressor ?pt) None None)
       \<lparr>columns = [''a'', ''b''], rows = [11 :: nat, 12]\<rparr> [PFloat 1, PFloat 2] None
       = Inr (SymModel (LGBMRegressor ?pt) ?fitted None)"
    "sk_fit symlib (SymModel (LGBMRegressor ?pr) None None)
       \<lparr>columns = [''a'', ''b''], rows = [11 :: nat, 12]\<rparr> [PFloat 1, PFloat 2] None
       = Inr (SymModel (LGBMRegressor ?pr) ?fitted None)"
    "sk_predict symlib (SymModel (LGBMRegressor ?pt) ?fitted None)
       \<lparr>columns = [''a'', ''b''], rows = [13 :: nat]\<rparr> = Inr [PFloat 1]"
    "sk_predict symlib (SymModel (LGBMRegressor ?pr) ?fitted None)
       \<lparr>columns = [''a'', ''b''], rows = [13 :: nat]\<rparr> = Inr [PFloat 1]"
    "sk_score symlib (SymModel (LGBMRegressor ?pr) ?fitted None)
       \<lparr>columns = [''a'', ''b''], rows = [13 :: nat]\<rparr> [PFloat 3] = Inr 1"
    by (simp_all add: symlib_def)
  note inst = regressor_filters_by_own_null_mask
    [where lib = symlib and h = "[[]]" and model_name = "''LGBM''" and X_train = ?Xtr
       and X_test = ?Xte and y_train = ?ytr and y_test = ?yte and params = 0
       and mk = LGBMRegressor
       and mi = "SymModel (LGBMRegressor ?pt) None None"
       and mf = "SymModel (LGBMRegressor ?pt) ?fitted None" and yp = "[PFloat 1]"
       and ri = "SymModel (LGBMRegressor ?pr) None None"
       and rf = "SymModel (LGBMRegressor ?pr) ?fitted None" and rp = "[PFloat 1]"
       and rs = 1]
  have pt: "map_of regressor_models ''LGBM'' = Some LGBMRegressor
        \<and> sk_init symlib (LGBMRegressor (effective (regressor_params [[]] ''LGBM'' 0)))
            = Inr (SymModel (LGBMRegressor ?pt) None None)
        \<and> length (rows ?Xtr) = length ?ytr \<and> length (rows ?Xte) = length ?yte
        \<and> sk_fit symlib (SymModel (LGBMRegressor ?pt) None None)
              (non_null_rows ?Xtr ?ytr) (non_null ?ytr) None
            = Inr (SymModel (LGBMRegressor ?pt) ?fitted None)
        \<and> sk_predict symlib (SymModel (LGBMRegressor ?pt) ?fitted None)
              (non_null_rows ?Xte ?yte) = Inr [PFloat 1]"
    by (simp add: nn et mk lib)
  have pr: "map_of regressor_models ''LGBM'' = Some LGBMRegressor
        \<and> sk_init symlib (LGBMRegressor (effective (remote_regressor_params [[]] ''LGBM'' 0)))
            = Inr (SymModel (LGBMRegressor ?pr) None None)
        \<and> length (rows ?Xtr) = length ?ytr \<and> length (rows ?Xte) = length ?yte
        \<and> sk_fit symlib (SymModel (LGBMRegressor ?pr) None None)
              (non_null_rows ?Xtr ?ytr) (non_null ?ytr) None
            = Inr (SymModel (LGBMRegressor ?pr) ?fitted None)
        \<and> sk_predict symlib (SymModel (LGBMRegressor ?pr) ?fitted None)
              (non_null_rows ?Xte ?yte) = Inr [PFloat 1]
        \<and> sk_score symlib (SymModel (LGBMRegressor ?pr) ?fitted None)
              (non_null_rows ?Xte ?yte) (non_null ?yte) = Inr 1"
    by (simp add: nn er mk lib)
  have t: "regressor symlib [[]] ''LGBM'' ?Xtr ?Xte ?ytr ?yte 0
      = (fst (regressor_params [[]] ''LGBM'' 0),
         Inr (non_null ?yte, [PFloat 1], SymModel (LGBMRegressor ?pt) ?fitted None))"
    by (rule inst [THEN conjunct2, THEN conjunct2, THEN conjunct1, THEN mp, OF pt])
  have r: "remote_regressor symlib [[]] ''LGBM'' ?Xtr ?Xte ?ytr ?yte 0
      = (fst (remote_regressor_params [[]] ''LGBM'' 0),
         Inr ([PFloat 1], 1, SymModel (LGBMRegressor ?pr) ?fitted None))"
    by (rule inst [THEN conjunct2, THEN conjunct2, THEN conjunct2, THEN mp, OF pr])
  show ?thesis
    by (simp only: t r nn ft fr simp_thms)
qed

section \<open>The two modules compared\<close>

lemma setdefault_present: "map_of d k \<noteq> None \<Longrightarrow> setdefault d k v = d"
  by (auto simp: setdefault_def)

lemma classifier_eq:
  "classifier lib h name X y p =
     (fst (classifier_params h p),
      andthen (sample_weight y) (\<lambda>sw.
        case map_of classifier_models name of
          None \<Rightarrow> Inl (KeyError (PStr name))
        | Some mk \<Rightarrow>
            andthen (sk_init lib (mk (effective (classifier_params h p)))) (\<lambda>model.
              sk_fit lib model X y (Some sw))))"
  by (simp add: classifier_def classifier_params_eq effective_def cong: option.case_cong)

lemma remote_classifier_eq:
  "remote_classifier lib h name X y p =
     (fst (classifier_params h p),
      andthen (sample_weight y) (\<lambda>sw.
        if name = ''LR'' then
          andthen (sk_init lib (OneVsRestClassifier
                     (LogisticRegression (effective (classifier_params h p))))) (\<lambda>model.
            andthen (sk_estimators lib model) (\<lambda>ests.
              andthen (fit_each lib ests X y sw) (\<lambda>ests'.
                Inr (sk_with_estimators lib model ests'))))
        else
          (case map_of classifier_models name of
             None \<Rightarrow> Inl (KeyError (PStr name))
           | Some mk \<Rightarrow>
               andthen (sk_init lib (mk (effective (classifier_params h p)))) (\<lambda>model.
                 sk_fit lib model X y (Some sw)))))"
  by (simp add: remote_classifier_def classifier_params_eq effective_def
      cong: option.case_cong if_cong)

lemma remote_classifier_LR_unfitted_wrapper:
  assumes "sample_weight y = Inr sw"
    and "sk_init lib (OneVsRestClassifier (LogisticRegression (effective (classifier_params h p))))
           = Inr m"
    and "sk_estimators lib m = Inl e"
  shows "snd (remote_classifier lib h ''LR'' X y p) = Inl e"
  using assms by (simp add: remote_classifier_eq)

lemma class_weight_untouched:
  "map_of (effective (remote_regressor_params h name p)) ''class_weight''
     = map_of (h ! p) ''class_weight''"
  by (simp add: remote_regressor_params_eq effective_def rf_defaults_def seed_default_def
      map_of_setdefault)

lemma regressor_params_vs_remote:
  "effective (regressor_params h name p)
     = setdefault (effective (remote_regressor_params h name p)) ''class_weight''
         (PStr ''balanced'')"
  by (simp add: regressor_params_eq remote_regressor_params_eq effective_def)

lemma fst_regressor_params_vs_remote:
  "map_of (h ! p) ''class_weight'' \<noteq> None \<Longrightarrow>
     fst (regressor_params h name p) = fst (remote_regressor_params h name p)"
  using class_weight_untouched [of h name p]
  by (simp add: regressor_params_eq remote_regressor_params_eq effective_def
      setdefault_present)

text \<open>
  Claim C2, as amended. For every family selector other than \<^verbatim>\<open>"LR"\<close> the two
  classifiers are the same function. The effective hyperparameters of the regressor of
  \<^verbatim>\<open>multipredictor.py\<close> are those of \<^verbatim>\<open>remote_multipredictor.py\<close> with the default
  \<^verbatim>\<open>class_weight = "balanced"\<close> added. When the caller sets \<^verbatim>\<open>class_weight\<close>, the two
  regressors leave the same store, build the same estimator, fit and predict on the same
  filtered rows; the second goes on to score the model on the filtered test rows and
  returns (predictions, score, model) where the first returns (filtered test labels,
  predictions, model).
\<close>

theorem variants_agree_up_to_class_weight:
  "(model_name \<noteq> ''LR'' \<longrightarrow>
      remote_classifier lib h model_name X_train y_train params
        = classifier lib h model_name X_train y_train params)
   \<and> effective (regressor_params h model_name params)
       = setdefault (effective (remote_regressor_params h model_name params))
           ''class_weight'' (PStr ''balanced'')
   \<and> (map_of (h ! params) ''class_weight'' \<noteq> None \<longrightarrow>
        fst (remote_regressor lib h model_name X_train X_test y_tr y_te params)
          = fst (regressor lib h model_name X_train X_test y_tr y_te params)
      \<and> snd (remote_regressor lib h model_name X_train X_test y_tr y_te params)
          = andthen (snd (regressor lib h model_name X_train X_test y_tr y_te params))
              (\<lambda>(y_test_filtered, y_pred, model).
                 andthen (sk_score lib model (non_null_rows X_test y_te) y_test_filtered)
                   (\<lambda>y_score. Inr (y_pred, y_score, model))))"
proof -
  have cls: "remote_classifier lib h model_name X_train y_train params
        = classifier lib h model_name X_train y_train params" if "model_name \<noteq> ''LR''"
    using that by (simp add: remote_classifier_eq classifier_eq)
  have reg: "fst (remote_regressor lib h model_name X_train X_test y_tr y_te params)
          = fst (regressor lib h model_name X_train X_test y_tr y_te params)
      \<and> snd (remote_regressor lib h model_name X_train X_test y_tr y_te params)
          = andthen (snd (regressor lib h model_name X_train X_test y_tr y_te params))
              (\<lambda>(y_test_filtered, y_pred, model).
                 andthen (sk_score lib model (non_null_rows X_test y_te) y_test_filtered)
                   (\<lambda>y_score. Inr (y_pred, y_score, model)))"
    if cw: "map_of (h ! params) ''class_weight'' \<noteq> None"
  proof -
    have e: "effective (regressor_params h model_name params)
        = effective (remote_regressor_params h model_name params)"
      using cw class_weight_untouched [of h model_name params]
      by (simp add: regressor_params_vs_remote setdefault_present)
    show ?thesis
      by (simp add: regressor_eq remote_regressor_eq e fst_regressor_params_vs_remote [OF cw]
          frame_filter_mask andthen_def split: option.splits sum.splits)
  qed
  from cls reg regressor_params_vs_remote show ?thesis by blast
qed

text \<open>
  The family \<^verbatim>\<open>"LGBM"\<close>, the caller setting \<^verbatim>\<open>class_weight\<close>.
\<close>

theorem variants_agree_up_to_class_weight_witness:
  "remote_classifier symlib [[(''class_weight'', PStr ''balanced'')]] ''LGBM''
       \<lparr>columns = [''a''], rows = [0 :: nat, 1]\<rparr> [PStr ''run'', PStr ''walk''] 0
     = classifier symlib [[(''class_weight'', PStr ''balanced'')]] ''LGBM''
         \<lparr>columns = [''a''], rows = [0 :: nat, 1]\<rparr> [PStr ''run'', PStr ''walk''] 0
   \<and> returned_ctor (snd (remote_regressor symlib [[(''class_weight'', PStr ''balanced'')]]
         ''LGBM'' \<lparr>columns = [''a''], rows = [0 :: nat, 1]\<rparr>
         \<lparr>columns = [''a''], rows = [0 :: nat, 1]\<rparr> [PFloat 1, PNone] [PNone, PFloat 2] 0))
     = Inr (LGBMRegressor
              [(''class_weight'', PStr ''balanced''), (''random_state'', PInt 42),
               (''n_jobs'', PInt (- 1))])
   \<and> returned_ctor (snd (regressor symlib [[(''class_weight'', PStr ''balanced'')]]
         ''LGBM'' \<lparr>columns = [''a''], rows = [0 :: nat, 1]\<rparr>
         \<lparr>columns = [''a''], rows = [0 :: nat, 1]\<rparr> [PFloat 1, PNone] [PNone, PFloat 2] 0))
     = Inr (LGBMRegressor
              [(''class_weight'', PStr ''balanced''), (''random_state'', PInt 42),
               (''n_jobs'', PInt (- 1))])"
  using variants_agree_up_to_class_weight
    [where lib = symlib and h = "[[(''class_weight'', PStr ''balanced'')]]"
       and model_name = "''LGBM''" and X_train = "\<lparr>columns = [''a''], rows = [0 :: nat, 1]\<rparr>"
       and X_test = "\<lparr>columns = [''a''], rows = [0 :: nat, 1]\<rparr>"
       and y_train = "[PStr ''run'', PStr ''walk'']" and params = 0
       and y_tr = "[PFloat 1, PNone]" and y_te = "[PNone, PFloat 2]"]
  by (simp add: regressor_eq remote_regressor_eq regressor_params_eq
      remote_regressor_params_eq effective_def rf_defaults_def seed_default_def
      setdefault_def regressor_models_def frame_filter_mask non_null_rows_def non_null_def
      symlib_def)

text \<open>
  Claim C2 as stated fails: on the same input, with no caller parameters, the two
  regressors build estimators with different keyword arguments.
\<close>

theorem regressor_variants_counterexample:
  "returned_ctor (snd (regressor symlib [[]] ''LGBM'' \<lparr>columns = [''a''], rows = [0 :: nat, 1]\<rparr>
         \<lparr>columns = [''a''], rows = [0 :: nat, 1]\<rparr> [PFloat 1, PNone] [PNone, PFloat 2] 0))
     = Inr (LGBMRegressor [(''random_state'', PInt 42), (''n_jobs'', PInt (- 1)),
                           (''class_weight'', PStr ''balanced'')])
   \<and> returned_ctor (snd (remote_regressor symlib [[]] ''LGBM''
         \<lparr>columns = [''a''], rows = [0 :: nat, 1]\<rparr>
         \<lparr>columns = [''a''], rows = [0 :: nat, 1]\<rparr> [PFloat 1, PNone] [PNone, PFloat 2] 0))
     = Inr (LGBMRegressor [(''random_state'', PInt 42), (''n_jobs'', PInt (- 1))])
   \<and> effective (regressor_params [[]] ''LGBM'' 0)
       \<noteq> effective (remote_regressor_params [[]] ''LGBM'' 0)"
  by (simp add: regressor_eq remote_regressor_eq regressor_params_eq
      remote_regressor_params_eq effective_def rf_defaults_def seed_default_def
      setdefault_def regressor_models_def frame_filter_mask non_null_rows_def non_null_def
      symlib_def)

text \<open>
  Claim C1 on the code, for the family \<^verbatim>\<open>"LR"\<close> and two training rows. In
  \<^verbatim>\<open>remote_multipredictor.py\<close> the loop reads \<^verbatim>\<open>estimators_\<close> of the wrapper it has
  just built: the read raises, no sub-estimator is fitted and no model is returned. In
  \<^verbatim>\<open>multipredictor.py\<close> there is no loop: the weights go to the one \<^verbatim>\<open>fit\<close> call on
  the wrapper, which takes no weights and raises; again no sub-estimator is fitted and no
  model is returned.
\<close>

theorem lr_sub_estimators_not_fitted:
  "snd (remote_classifier symlib [[]] ''LR'' \<lparr>columns = [''a''], rows = [0 :: nat, 1]\<rparr>
          [PStr ''run'', PStr ''walk''] 0)
     = Inl (AttributeError ''estimators_'')
   \<and> snd (classifier symlib [[]] ''LR'' \<lparr>columns = [''a''], rows = [0 :: nat, 1]\<rparr>
          [PStr ''run'', PStr ''walk''] 0)
     = Inl (TypeError ''sample_weight'')"
  by (simp add: remote_classifier_eq classifier_eq classifier_params_eq effective_def
      setdefault_def classifier_models_def class_weights_def symlib_def)

text \<open>
  For every library and every training set: the classifier of \<^verbatim>\<open>multipredictor.py\<close>
  reaches the library, for \<^verbatim>\<open>"LR"\<close>, only through the constructor and one \<^verbatim>\<open>fit\<close> of
  the wrapper with the weights.
\<close>

lemma classifier_LR_one_wrapper_fit:
  "snd (classifier lib h ''LR'' X y p) =
     andthen (sample_weight y) (\<lambda>sw.
       andthen (sk_init lib (OneVsRestClassifier
                  (LogisticRegression (effective (classifier_params h p))))) (\<lambda>model.
         sk_fit lib model X y (Some sw)))"
  by (simp add: classifier_eq classifier_models_def)

section \<open>Feature importances are sorted\<close>

lemma dict_set_fresh: "k \<notin> fst ` set d \<Longrightarrow> dict_set d k v = d @ [(k, v)]"
  by (induction d) auto

lemma keys_dict_set: "fst ` set (dict_set d k v) = insert k (fst ` set d)"
proof (induction d)
  case Nil
  show ?case by simp
next
  case (Cons a d)
  obtain k' v' where a: "a = (k', v')" by (cases a)
  show ?case
  proof (cases "k' = k")
    case True
    then show ?thesis by (simp add: a)
  next
    case False
    with Cons.IH show ?thesis by (simp add: a insert_commute)
  qed
qed

lemma distinct_dict_set: "distinct (map fst d) \<Longrightarrow> distinct (map fst (dict_set d k v))"
proof (induction d)
  case Nil
  show ?case by simp
next
  case (Cons a d)
  obtain k' v' where a: "a = (k', v')" by (cases a)
  from Cons.prems have "k' \<notin> fst ` set d" and "distinct (map fst d)"
    by (simp_all add: a)
  with Cons.IH show ?case
    using keys_dict_set [of d k v] by (auto simp: a)
qed

lemma fold_dict_set_distinct:
  "distinct (map fst (acc @ xs)) \<Longrightarrow> fold (\<lambda>(k, v) d. dict_set d k v) xs acc = acc @ xs"
proof (induction xs arbitrary: acc)
  case Nil
  show ?case by simp
next
  case (Cons x xs)
  obtain k v where x: "x = (k, v)" by (cases x)
  from Cons.prems have fresh: "k \<notin> fst ` set acc"
    by (auto simp: x)
  from Cons.prems have "distinct (map fst ((acc @ [(k, v)]) @ xs))"
    by (simp add: x)
  from Cons.IH [OF this] show ?case
    by (simp add: x dict_set_fresh [OF fresh])
qed

lemma dict_of_items_distinct: "distinct (map fst xs) \<Longrightarrow> dict_of_items xs = xs"
  using fold_dict_set_distinct [of "[]" xs] by (simp add: dict_of_items_def)

lemma importance_dict_distinct_keys:
  "importance_dict names fi ix js d = Inr d' \<Longrightarrow> distinct (map fst d) \<Longrightarrow> distinct (map fst d')"
  by (induction names fi ix js d rule: importance_dict.induct)
     (auto simp: distinct_dict_set split: if_splits)

lemma importance_dict_fresh:
  assumes "\<forall>j\<in>set js. j < length ix \<and> ix ! j < length names \<and> ix ! j < length fi"
    and "distinct (map fst d @ map (\<lambda>j. names ! (ix ! j)) js)"
  shows "importance_dict names fi ix js d
           = Inr (d @ map (\<lambda>j. (names ! (ix ! j), fi ! (ix ! j))) js)"
  using assms
proof (induction js arbitrary: d)
  case Nil
  show ?case by simp
next
  case (Cons j js)
  let ?k = "names ! (ix ! j)"
  from Cons.prems(2) have fresh: "?k \<notin> fst ` set d"
    by auto
  have step: "dict_set d ?k (fi ! (ix ! j)) = d @ [(?k, fi ! (ix ! j))]"
    by (rule dict_set_fresh [OF fresh])
  from Cons.prems(2)
  have dist: "distinct (map fst (d @ [(?k, fi ! (ix ! j))]) @ map (\<lambda>j. names ! (ix ! j)) js)"
    by auto
  from Cons.prems(1) have rest: "\<forall>j\<in>set js. j < length ix \<and> ix ! j < length names \<and> ix ! j < length fi"
    by simp
  from Cons.prems(1) have ok: "j < length ix \<and> ix ! j < length names \<and> ix ! j < length fi"
    by simp
  show ?case
    using Cons.IH [OF rest dist] ok by (simp add: step)
qed

lemma sorted_reverse_desc:
  "sorted_wrt (\<lambda>a b. key b \<le> key a) (sorted_reverse key xs)"
proof -
  have "sorted (map key (sort_key key (rev xs)))"
    by (rule sorted_sort_key)
  then have "sorted_wrt (\<lambda>a b. key a \<le> key b) (sort_key key (rev xs))"
    by (simp add: sorted_wrt_map)
  then show ?thesis
    by (simp add: sorted_reverse_def sorted_wrt_rev)
qed

lemma set_sorted_reverse [simp]: "set (sorted_reverse key xs) = set xs"
  by (simp add: sorted_reverse_def)

lemma distinct_keys_sorted_reverse:
  "distinct (map fst xs) \<Longrightarrow> distinct (map fst (sorted_reverse key xs))"
  by (simp add: sorted_reverse_def distinct_map)

lemma feature_importances_sorted_if_returned:
  assumes "feature_importances lib model X_train = Inr d"
  shows "sorted_wrt (\<lambda>a b. snd b \<le> snd a) d \<and> distinct (map fst d)"
proof -
  from assms obtain fi d0 where
    d0: "importance_dict (columns X_train) fi (rev (np_argsort lib fi)) [0..<length fi] [] = Inr d0"
    and d: "d = dict_of_items (sorted_reverse snd d0)"
    by (auto simp: feature_importances_def Let_def andthen_eq_Inr)
  from importance_dict_distinct_keys [OF d0] have "distinct (map fst d0)"
    by simp
  then have dk: "distinct (map fst (sorted_reverse snd d0))"
    by (rule distinct_keys_sorted_reverse)
  then have "d = sorted_reverse snd d0"
    by (simp add: d dict_of_items_distinct)
  with dk show ?thesis
    by (simp add: sorted_reverse_desc)
qed

lemma permutation_distinct:
  "length ix = n \<Longrightarrow> set ix = {..<n} \<Longrightarrow> distinct ix"
  by (rule card_distinct) simp

lemma map_nth_upt: "map (\<lambda>j. f (ix ! j)) [0..<length ix] = map f ix"
proof -
  have "map (\<lambda>j. f (ix ! j)) [0..<length ix] = map f (map ((!) ix) [0..<length ix])"
    by (simp add: comp_def)
  then show ?thesis
    by (simp only: map_nth)
qed

text \<open>
  Claim C8. For a model that has importances, one per column of the training frame, and
  a frame with distinct column names (as every data frame has), with \<^verbatim>\<open>np.argsort\<close>
  returning a permutation of the indices, whatever its order among ties: the extraction
  returns an ordered mapping whose entries are sorted non-increasing by value, whose keys
  are the column names, each once, and which maps every feature name to its importance.
\<close>

theorem feature_importances_sorted_descending:
  assumes fi: "sk_feature_importances lib model = Inr fi"
    and len: "length (np_argsort lib fi) = length fi"
    and perm: "set (np_argsort lib fi) = {..<length fi}"
    and cols: "length (columns X_train) = length fi"
    and dist: "distinct (columns X_train)"
  shows "\<exists>d. feature_importances lib model X_train = Inr d
           \<and> sorted_wrt (\<lambda>a b. snd b \<le> snd a) d
           \<and> distinct (map fst d)
           \<and> fst ` set d = set (columns X_train)
           \<and> (\<forall>i<length fi. map_of d (columns X_train ! i) = Some (fi ! i))"
proof -
  let ?names = "columns X_train"
  let ?ix = "rev (np_argsort lib fi)"
  let ?items = "map (\<lambda>k. (?names ! k, fi ! k)) ?ix"
  have lix: "length ?ix = length fi" and six: "set ?ix = {..<length fi}"
    using len perm by simp_all
  have dix: "distinct ?ix"
    by (rule permutation_distinct [OF lix six])
  have inj: "inj_on (\<lambda>k. ?names ! k) (set ?ix)"
    using dist cols six by (auto simp: inj_on_def nth_eq_iff_index_eq)
  have keys: "map fst ?items = map (\<lambda>k. ?names ! k) ?ix"
    by simp
  have dkeys: "distinct (map fst ?items)"
    unfolding keys using dix inj by (simp add: distinct_map)
  have bounds: "\<forall>j\<in>set [0..<length fi].
      j < length ?ix \<and> ?ix ! j < length ?names \<and> ?ix ! j < length fi"
  proof
    fix j assume "j \<in> set [0..<length fi]"
    then have j: "j < length ?ix" using lix by simp
    then have "?ix ! j \<in> set ?ix" by (rule nth_mem)
    then have "?ix ! j < length fi" using six by simp
    with j cols show "j < length ?ix \<and> ?ix ! j < length ?names \<and> ?ix ! j < length fi"
      by simp
  qed
  have upt: "map (\<lambda>j. ?names ! (?ix ! j)) [0..<length fi] = map (\<lambda>k. ?names ! k) ?ix"
    using map_nth_upt [of "\<lambda>k. ?names ! k" ?ix] lix by simp
  have upt2: "map (\<lambda>j. (?names ! (?ix ! j), fi ! (?ix ! j))) [0..<length fi] = ?items"
    using map_nth_upt [of "\<lambda>k. (?names ! k, fi ! k)" ?ix] lix by simp
  have d0: "importance_dict ?names fi ?ix [0..<length fi] [] = Inr ?items"
    using importance_dict_fresh [of "[0..<length fi]" ?ix ?names fi "[]"] bounds dkeys
    unfolding upt upt2 keys by simp
  let ?d = "sorted_reverse snd ?items"
  have dk: "distinct (map fst ?d)"
    by (rule distinct_keys_sorted_reverse [OF dkeys])
  have res: "feature_importances lib model X_train = Inr ?d"
    using fi d0 dk by (simp add: feature_importances_def Let_def dict_of_items_distinct)
  have set_d: "set ?d = (\<lambda>k. (?names ! k, fi ! k)) ` {..<length fi}"
    using six by simp
  have keys_d: "fst ` set ?d = set ?names"
  proof -
    have "fst ` set ?d = (\<lambda>k. ?names ! k) ` {..<length ?names}"
      unfolding set_d cols by (simp add: image_image)
    also have "\<dots> = set ?names"
      by (auto simp: set_conv_nth)
    finally show ?thesis .
  qed
  have look: "map_of ?d (?names ! i) = Some (fi ! i)" if "i < length fi" for i
  proof -
    from that have "(?names ! i, fi ! i) \<in> set ?d"
      unfolding set_d by blast
    with dk show ?thesis
      by (rule map_of_is_SomeI)
  qed
  from res sorted_reverse_desc [of snd ?items] dk keys_d look show ?thesis
    by blast
qed

lemma stable_argsort_permutation:
  "length (stable_argsort xs) = length xs \<and> set (stable_argsort xs) = {..<length xs}"
proof -
  have m: "map snd (zip xs [0..<length xs]) = [0..<length xs]"
    by (simp add: map_snd_zip)
  have "set (stable_argsort xs) = snd ` set (zip xs [0..<length xs])"
    by (simp add: stable_argsort_def)
  also have "\<dots> = set (map snd (zip xs [0..<length xs]))"
    by (simp only: set_map)
  also have "\<dots> = set [0..<length xs]"
    by (simp only: m)
  also have "\<dots> = {..<length xs}"
    by (simp add: atLeast0LessThan)
  finally show ?thesis
    by (simp add: stable_argsort_def)
qed

text \<open>
  Four features, two of them tied.
\<close>

theorem feature_importances_sorted_descending_witness:
  "feature_importances
     (symlib\<lparr>sk_feature_importances := \<lambda>m. Inr [0.2, 0.5, 0.3, 0.5]\<rparr>)
     (SymModel (LGBMRegressor []) None None)
     \<lparr>columns = [''a'', ''b'', ''c'', ''d''], rows = [0 :: nat]\<rparr>
   = Inr [(''d'', 0.5), (''b'', 0.5), (''c'', 0.3), (''a'', 0.2)]"
proof -
  let ?lib = "symlib\<lparr>sk_feature_importances := \<lambda>m. Inr [0.2, 0.5, 0.3, 0.5]\<rparr>
                :: (nat, nat sym_model) backend"
  let ?X = "\<lparr>columns = [''a'', ''b'', ''c'', ''d''], rows = [0 :: nat]\<rparr>"
  have fi: "sk_feature_importances ?lib (SymModel (LGBMRegressor []) None None)
              = Inr [0.2, 0.5, 0.3, 0.5]"
    by simp
  have arg: "np_argsort ?lib = stable_argsort"
    by (simp add: symlib_def)
  have len: "length (np_argsort ?lib [0.2, 0.5, 0.3, 0.5]) = length [0.2, 0.5, 0.3, 0.5 :: real]"
    unfolding arg using stable_argsort_permutation [of "[0.2, 0.5, 0.3, 0.5]"] by blast
  have perm: "set (np_argsort ?lib [0.2, 0.5, 0.3, 0.5]) = {..<length [0.2, 0.5, 0.3, 0.5 :: real]}"
    unfolding arg using stable_argsort_permutation [of "[0.2, 0.5, 0.3, 0.5]"] by blast
  have cols: "length (columns ?X) = length [0.2, 0.5, 0.3, 0.5 :: real]"
    by simp
  have dist: "distinct (columns ?X)"
    by simp
  have val: "feature_importances ?lib (SymModel (LGBMRegressor []) None None) ?X
      = Inr [(''d'', 0.5), (''b'', 0.5), (''c'', 0.3), (''a'', 0.2)]"
    by (simp add: feature_importances_def symlib_def stable_argsort_def Let_def upt_rec
        dict_of_items_def sorted_reverse_def)
  from feature_importances_sorted_descending [OF fi len perm cols dist] val
  show ?thesis by simp
qed

section \<open>The label order of the confusion matrix\<close>

lemma bind_log_Inl [simp]: "bind_log (evs, Inl e) k = (evs, Inl e)"
  by (simp add: bind_log_def)

lemma bind_log_Inr [simp]: "bind_log (evs, Inr x) k = (evs @ fst (k x), snd (k x))"
  by (simp add: bind_log_def split: prod.splits)

lemma bind_log_call_Inl [simp]: "bind_log (call (Inl e)) k = ([], Inl e)"
  by (simp add: call_def)

lemma bind_log_call_Inr [simp]: "bind_log (call (Inr x)) k = k x"
  by (simp add: call_def)

lemma bind_log_emit [simp]: "bind_log (emit evs) k = (evs @ fst (k ()), snd (k ()))"
  by (simp add: emit_def)

lemma fst_bind_log_call:
  "fst (bind_log (call r) k) = (case r of Inl e \<Rightarrow> [] | Inr x \<Rightarrow> fst (k x))"
  by (cases r) simp_all

lemma snd_bind_log_call:
  "snd (bind_log (call r) k) = (case r of Inl e \<Rightarrow> Inl e | Inr x \<Rightarrow> snd (k x))"
  by (cases r) simp_all

lemma set_unique_maintain_order [simp]: "set (unique_maintain_order xs) = set xs"
  by (induction xs rule: unique_maintain_order.induct) auto

lemma distinct_unique_maintain_order [simp]: "distinct (unique_maintain_order xs)"
  by (induction xs rule: unique_maintain_order.induct) auto

lemma length_filter_take_mono:
  "m \<le> n \<Longrightarrow> length (filter P (take m xs)) \<le> length (filter P (take n xs))"
proof -
  assume "m \<le> n"
  then have "take n xs = take m xs @ take (n - m) (drop m xs)"
    by (metis le_add_diff_inverse take_add)
  then show ?thesis by simp
qed

lemma takeWhile_filter_commute:
  "a \<noteq> x \<Longrightarrow> takeWhile (\<lambda>y. y \<noteq> a) (filter (\<lambda>y. y \<noteq> x) xs)
     = filter (\<lambda>y. y \<noteq> x) (takeWhile (\<lambda>y. y \<noteq> a) xs)"
  by (induction xs) auto

lemma first_index_filter:
  assumes "a \<noteq> x"
  shows "first_index (filter (\<lambda>y. y \<noteq> x) xs) a
           = length (filter (\<lambda>y. y \<noteq> x) (take (first_index xs a) xs))"
proof -
  have t: "takeWhile (\<lambda>y. y \<noteq> a) xs = take (first_index xs a) xs"
    unfolding first_index_def by (rule takeWhile_eq_take)
  have "first_index (filter (\<lambda>y. y \<noteq> x) xs) a
          = length (filter (\<lambda>y. y \<noteq> x) (takeWhile (\<lambda>y. y \<noteq> a) xs))"
    unfolding first_index_def by (simp only: takeWhile_filter_commute [OF assms])
  then show ?thesis
    by (simp only: t)
qed

lemma first_index_filter_mono:
  assumes "a \<noteq> x" "b \<noteq> x"
    and "first_index (filter (\<lambda>y. y \<noteq> x) xs) a < first_index (filter (\<lambda>y. y \<noteq> x) xs) b"
  shows "first_index xs a < first_index xs b"
proof (rule ccontr)
  assume "\<not> first_index xs a < first_index xs b"
  then have le: "first_index xs b \<le> first_index xs a" by simp
  have "length (filter (\<lambda>y. y \<noteq> x) (take (first_index xs b) xs))
          \<le> length (filter (\<lambda>y. y \<noteq> x) (take (first_index xs a) xs))"
    by (rule length_filter_take_mono [OF le])
  then have "first_index (filter (\<lambda>y. y \<noteq> x) xs) b \<le> first_index (filter (\<lambda>y. y \<noteq> x) xs) a"
    by (simp only: first_index_filter [OF assms(1)] first_index_filter [OF assms(2)])
  with assms(3) show False by simp
qed

lemma first_index_Cons:
  "first_index (x # xs) y = (if y = x then 0 else Suc (first_index xs y))"
  by (simp add: first_index_def)

lemma unique_maintain_order_first_occurrence:
  "sorted_wrt (\<lambda>a b. first_index xs a < first_index xs b) (unique_maintain_order xs)"
proof (induction xs rule: unique_maintain_order.induct)
  case 1
  show ?case by simp
next
  case (2 x xs)
  let ?F = "filter (\<lambda>y. y \<noteq> x) xs"
  let ?U = "unique_maintain_order ?F"
  have mem: "b \<noteq> x" if "b \<in> set ?U" for b
    using that by simp
  have "sorted_wrt (\<lambda>a b. first_index (x # xs) a < first_index (x # xs) b) ?U"
  proof (rule sorted_wrt_mono_rel [OF _ "2.IH"])
    fix a b
    assume a: "a \<in> set ?U" and b: "b \<in> set ?U"
      and lt: "first_index ?F a < first_index ?F b"
    have "first_index xs a < first_index xs b"
      by (rule first_index_filter_mono [OF mem [OF a] mem [OF b] lt])
    then show "first_index (x # xs) a < first_index (x # xs) b"
      by (simp only: first_index_Cons mem [OF a] mem [OF b] if_False Suc_less_eq)
  qed
  moreover have "\<forall>b\<in>set ?U. first_index (x # xs) x < first_index (x # xs) b"
  proof
    fix b assume "b \<in> set ?U"
    then have "b \<noteq> x" by (rule mem)
    then show "first_index (x # xs) x < first_index (x # xs) b"
      by (simp add: first_index_Cons)
  qed
  ultimately show ?case
    by (simp only: unique_maintain_order.simps sorted_wrt.simps simp_thms)
qed

lemma confusion_matrix_eq:
  "confusion_matrix lib m labels X y path =
     (case sk_predict lib m X of
        Inl e \<Rightarrow> ([], Inl e)
      | Inr y_pred \<Rightarrow> ([SaveFig path], Inr (keyed_matrix labels y y_pred)))"
  by (simp add: confusion_matrix_def keyed_matrix_def split: sum.splits)

lemma events_bind_log:
  assumes "\<forall>ev\<in>set (fst r). P ev"
    and "\<And>x. snd r = Inr x \<Longrightarrow> \<forall>ev\<in>set (fst (k x)). P ev"
  shows "\<forall>ev\<in>set (fst (bind_log r k)). P ev"
proof (cases r)
  case (Pair evs res)
  show ?thesis
  proof (cases res)
    case (Inl e)
    with Pair assms(1) show ?thesis by simp
  next
    case (Inr x)
    with Pair assms(1) assms(2) [of x] show ?thesis by auto
  qed
qed

lemma events_call: "\<forall>ev\<in>set (fst (call r)). P ev"
  by (simp add: call_def)

lemma events_emit: "\<forall>ev\<in>set evs. P ev \<Longrightarrow> \<forall>ev\<in>set (fst (emit evs)). P ev"
  by (simp add: emit_def)

lemma confusion_matrix_result:
  "snd (confusion_matrix lib m labels X y path) = Inr cm \<Longrightarrow>
     \<exists>y_pred. sk_predict lib m X = Inr y_pred \<and> cm = keyed_matrix labels y y_pred"
  by (auto simp: confusion_matrix_eq split: sum.splits)

lemma confusion_matrix_events:
  "\<forall>ev\<in>set (fst (confusion_matrix lib m labels X y path)). \<forall>cm. ev \<noteq> InfoConfusionMatrix cm"
  by (auto simp: confusion_matrix_eq split: sum.splits)

lemma cm_ok_simps [simp]:
  "cm_ok labels y (StartRun s)" "cm_ok labels y (SetTag s)" "cm_ok labels y LogParams"
  "cm_ok labels y (LogMetric s v)" "cm_ok labels y (LogArtifact v)" "cm_ok labels y (SaveFig s)"
  "cm_ok labels y (JsonDumpImportances s d)" "cm_ok labels y (JsonDumpOutput a b)"
  "cm_ok labels y (PickleDump s)"
  by (simp_all add: cm_ok_def)

lemma cm_ok_cm:
  "cm_ok labels y (InfoConfusionMatrix cm) = (\<exists>y_pred. cm = keyed_matrix labels y y_pred)"
  by (simp add: cm_ok_def)

lemma confusion_matrix_cm_ok:
  "\<forall>ev\<in>set (fst (confusion_matrix lib m labels X y path)). cm_ok labels' y' ev"
  by (auto simp: confusion_matrix_eq split: sum.splits)

lemma activity_stage_cm_ok:
  "\<forall>ev\<in>set (fst (snd (activity_stage lib h inp model hp))).
     cm_ok (unique_maintain_order (activity inp)) (y1_test inp) ev"
  unfolding activity_stage_def Let_def case_prod_unfold
  apply (simp only: fst_conv snd_conv)
  apply (intro events_bind_log events_call events_emit confusion_matrix_cm_ok)
  apply (auto simp: cm_ok_cm dest!: confusion_matrix_result)
  done

lemma feature_step_cm_ok:
  "\<forall>ev\<in>set (fst (if c then bind_log (call r)
                 (\<lambda>d. bind_log (emit [JsonDumpImportances (p d) d]) (\<lambda>_. ([], Inr (v d))))
               else ([], Inr w))). cm_ok labels y ev"
  by (cases r) (auto simp: emit_def)

lemma regressor_script_cm_ok:
  "\<forall>ev\<in>set (fst (snd (regressor_script lib h model f Xtr Xte ytr yte hp))). cm_ok labels y ev"
  unfolding regressor_script_def Let_def case_prod_unfold
  apply (simp only: fst_conv snd_conv)
  apply (intro events_bind_log events_call events_emit feature_step_cm_ok ballI)
  apply (auto simp: emit_def split: if_splits)
  done

lemma regressor_stage_cm_ok:
  "\<forall>ev\<in>set (fst (snd (regressor_stage lib h run model f Xtr Xte ytr yte hp))). cm_ok labels y ev"
  unfolding regressor_stage_def Let_def case_prod_unfold
  apply (simp only: fst_conv snd_conv)
  apply (intro events_bind_log events_call events_emit regressor_script_cm_ok ballI)
  apply (auto simp: emit_def split: if_splits)
  done

lemma main_cm_ok:
  fixes lib :: "('x, 'm) backend"
  shows "\<forall>ev\<in>set (fst (snd (main lib h inp model))).
     cm_ok (unique_maintain_order (activity inp)) (y1_test inp) ev"
proof -
  let ?P = "cm_ok (unique_maintain_order (activity inp)) (y1_test inp) :: 'm event \<Rightarrow> bool"
  obtain h1 evs1 r1 where a: "activity_stage lib (h @ [[]]) inp model (length h) = (h1, evs1, r1)"
    by (metis prod_cases3)
  obtain h2 evs2 r2 where s:
    "regressor_stage lib h1 ''speed regressor'' model ''Speed'' (scaled_X_train inp)
       (scaled_X_test inp) (y2_train inp) (y2_test inp) (length h) = (h2, evs2, r2)"
    by (metis prod_cases3)
  obtain h3 evs3 r3 where i:
    "regressor_stage lib h2 ''incline regressor'' model ''Incline'' (scaled_X_train inp)
       (scaled_X_test inp) (y3_train inp) (y3_test inp) (length h) = (h3, evs3, r3)"
    by (metis prod_cases3)
  have e1: "\<forall>ev\<in>set evs1. ?P ev"
    using activity_stage_cm_ok [of lib "h @ [[]]" inp model "length h"] a by simp
  have e2: "\<forall>ev\<in>set evs2. ?P ev"
    using regressor_stage_cm_ok [of lib h1 "''speed regressor''" model "''Speed''"
        "scaled_X_train inp" "scaled_X_test inp" "y2_train inp" "y2_test inp" "length h"] s
    by simp
  have e3: "\<forall>ev\<in>set evs3. ?P ev"
    using regressor_stage_cm_ok [of lib h2 "''incline regressor''" model "''Incline''"
        "scaled_X_train inp" "scaled_X_test inp" "y3_train inp" "y3_test inp" "length h"] i
    by simp
  show ?thesis
    using e1 e2 e3 by (auto simp: main_def Let_def a s i split: sum.splits)
qed

lemma remote_main_cm_ok:
  "\<forall>ev\<in>set (fst (snd (remote_main lib h inp model save))).
     cm_ok (unique_maintain_order (activity inp)) (y1_test inp) ev"
  unfolding remote_main_def Let_def case_prod_unfold
  apply (simp only: fst_conv snd_conv)
  apply (intro events_bind_log events_call events_emit confusion_matrix_cm_ok ballI)
  apply (auto simp: emit_def cm_ok_cm dest!: confusion_matrix_result split: if_splits)
  done

lemma keyed_matrix_dims:
  "length (keyed_matrix labels y_true y_pred) = length labels
   \<and> (\<forall>row\<in>set (keyed_matrix labels y_true y_pred). length row = length labels)"
  by (auto simp: keyed_matrix_def)

lemma reported_matrix_keyed:
  fixes lib :: "('x, 'm) backend"
  assumes "InfoConfusionMatrix cm \<in> set (fst (snd (main lib h inp model)))
           \<or> InfoConfusionMatrix cm \<in> set (fst (snd (remote_main lib h inp model save)))"
  shows "distinct (unique_maintain_order (activity inp))
         \<and> set (unique_maintain_order (activity inp)) = set (activity inp)
         \<and> sorted_wrt (\<lambda>a b. first_index (activity inp) a < first_index (activity inp) b)
             (unique_maintain_order (activity inp))
         \<and> length cm = length (unique_maintain_order (activity inp))
         \<and> (\<forall>row\<in>set cm. length row = length (unique_maintain_order (activity inp)))
         \<and> (\<exists>y_pred. cm = keyed_matrix (unique_maintain_order (activity inp))
                            (y1_test inp) y_pred)"
proof -
  from assms main_cm_ok [of lib h inp model] remote_main_cm_ok [of lib h inp model save]
  have "cm_ok (unique_maintain_order (activity inp)) (y1_test inp)
          (InfoConfusionMatrix cm :: 'm event)"
    by blast
  then obtain y_pred where
    cm: "cm = keyed_matrix (unique_maintain_order (activity inp)) (y1_test inp) y_pred"
    by (auto simp: cm_ok_cm)
  show ?thesis
    using keyed_matrix_dims [of "unique_maintain_order (activity inp)" "y1_test inp" y_pred]
      unique_maintain_order_first_occurrence [of "activity inp"] cm
    by auto
qed

lemma activity_stage_completes:
  assumes "snd (classifier lib h model (scaled_X_train inp) (y1_train inp) hp) = Inr m"
    and "sk_score lib m (scaled_X_test inp) (y1_test inp) = Inr s"
    and "sk_predict lib m (scaled_X_test inp) = Inr yp"
    and "sk_f1_score lib (y1_test inp) yp ''micro'' = Inr f"
    and "sk_f1_score lib (y1_test inp) yp ''weighted'' = Inr fw"
  shows "activity_stage lib h inp model hp
           = (fst (classifier_params h hp),
              [StartRun ''activity classifier'', LogMetric ''score'' (Val (PFloat s)),
               LogMetric ''f1_score'' (Val (PFloat f)),
               LogMetric ''f1_score_weighted'' (Val (PFloat fw)),
               SaveFig (model @ ''_confusion_matrix.png''),
               InfoConfusionMatrix
                 (keyed_matrix (unique_maintain_order (activity inp)) (y1_test inp) yp),
               LogArtifact (Val (PStr (model @ ''_confusion_matrix.png'')))],
              Inr ())"
proof -
  obtain h' r where c: "classifier lib h model (scaled_X_train inp) (y1_train inp) hp = (h', r)"
    by (cases "classifier lib h model (scaled_X_train inp) (y1_train inp) hp")
  from c have h': "h' = fst (classifier_params h hp)"
    using fst_classifier [of lib h model "scaled_X_train inp" "y1_train inp" hp] by simp
  from c assms(1) have r: "r = Inr m" by simp
  show ?thesis
    by (simp add: activity_stage_def c h' r assms(2-5) Let_def confusion_matrix_eq emit_def)
qed

lemma main_events_include_activity:
  "set (fst (snd (activity_stage lib (h @ [[]]) inp model (length h))))
     \<subseteq> set (fst (snd (main lib h inp model)))"
proof -
  obtain h1 evs1 r1 where a: "activity_stage lib (h @ [[]]) inp model (length h) = (h1, evs1, r1)"
    by (metis prod_cases3)
  obtain h2 evs2 r2 where s:
    "regressor_stage lib h1 ''speed regressor'' model ''Speed'' (scaled_X_train inp)
       (scaled_X_test inp) (y2_train inp) (y2_test inp) (length h) = (h2, evs2, r2)"
    by (metis prod_cases3)
  obtain h3 evs3 r3 where i:
    "regressor_stage lib h2 ''incline regressor'' model ''Incline'' (scaled_X_train inp)
       (scaled_X_test inp) (y3_train inp) (y3_test inp) (length h) = (h3, evs3, r3)"
    by (metis prod_cases3)
  show ?thesis
    by (auto simp: main_def Let_def a s i split: sum.splits)
qed

lemma main_reports_matrix:
  assumes "snd (classifier lib (h @ [[]]) model (scaled_X_train inp) (y1_train inp) (length h))
             = Inr m"
    and "sk_score lib m (scaled_X_test inp) (y1_test inp) = Inr s"
    and "sk_predict lib m (scaled_X_test inp) = Inr yp"
    and "sk_f1_score lib (y1_test inp) yp ''micro'' = Inr f"
    and "sk_f1_score lib (y1_test inp) yp ''weighted'' = Inr fw"
  shows "InfoConfusionMatrix
           (keyed_matrix (unique_maintain_order (activity inp)) (y1_test inp) yp)
         \<in> set (fst (snd (main lib h inp model)))"
  using main_events_include_activity [of lib h inp model]
  by (auto simp: activity_stage_completes [OF assms])

lemma remote_main_reports_matrix:
  assumes "snd (remote_classifier lib (h @ [[]]) model (scaled_X_train inp) (y1_train inp)
                  (length h)) = Inr m"
    and "sk_score lib m (scaled_X_test inp) (y1_test inp) = Inr s"
    and "sk_predict lib m (scaled_X_test inp) = Inr yp"
    and "sk_f1_score lib (y1_test inp) yp ''weighted'' = Inr fw"
  shows "InfoConfusionMatrix
           (keyed_matrix (unique_maintain_order (activity inp)) (y1_test inp) yp)
         \<in> set (fst (snd (remote_main lib h inp model save)))"
proof -
  obtain h' r where c:
    "remote_classifier lib (h @ [[]]) model (scaled_X_train inp) (y1_train inp) (length h)
       = (h', r)"
    by (cases "remote_classifier lib (h @ [[]]) model (scaled_X_train inp) (y1_train inp)
                 (length h)")
  from c assms(1) have r: "r = Inr m" by simp
  show ?thesis
    by (simp add: remote_main_def c r assms(2-4) Let_def confusion_matrix_eq emit_def)
qed

text \<open>
  Claim C7. In both modules the classification stage reports a confusion matrix keyed by
  the labels \<^verbatim>\<open>unique(maintain_order=True)\<close> of the \<^verbatim>\<open>ACTIVITY\<close> column of the full
  dataset. Every matrix that a run of either module reports is keyed so: each label of the
  column once, ordered by first occurrence in the column (not alphabetically), and the
  matrix has as many rows as there are labels, each row with as many entries. And when
  the library produces the classifier, its score, its predictions and the f1 scores, the
  run of either module reports the matrix of the test labels against those predictions,
  keyed by these labels.
\<close>

theorem confusion_matrix_keyed_by_first_occurrence:
  fixes lib :: "('x, 'm) backend"
  shows "(InfoConfusionMatrix cm \<in> set (fst (snd (main lib h inp model)))
          \<or> InfoConfusionMatrix cm \<in> set (fst (snd (remote_main lib h inp model save)))
        \<longrightarrow> distinct (unique_maintain_order (activity inp))
         \<and> set (unique_maintain_order (activity inp)) = set (activity inp)
         \<and> sorted_wrt (\<lambda>a b. first_index (activity inp) a < first_index (activity inp) b)
             (unique_maintain_order (activity inp))
         \<and> length cm = length (unique_maintain_order (activity inp))
         \<and> (\<forall>row\<in>set cm. length row = length (unique_maintain_order (activity inp)))
         \<and> (\<exists>y_pred. cm = keyed_matrix (unique_maintain_order (activity inp))
                            (y1_test inp) y_pred))
   \<and> (snd (classifier lib (h @ [[]]) model (scaled_X_train inp) (y1_train inp) (length h))
          = Inr m
        \<and> sk_score lib m (scaled_X_test inp) (y1_test inp) = Inr s
        \<and> sk_predict lib m (scaled_X_test inp) = Inr yp
        \<and> sk_f1_score lib (y1_test inp) yp ''micro'' = Inr f
        \<and> sk_f1_score lib (y1_test inp) yp ''weighted'' = Inr fw
      \<longrightarrow> InfoConfusionMatrix
            (keyed_matrix (unique_maintain_order (activity inp)) (y1_test inp) yp)
          \<in> set (fst (snd (main lib h inp model))))
   \<and> (snd (remote_classifier lib (h @ [[]]) model (scaled_X_train inp) (y1_train inp)
               (length h)) = Inr rm
        \<and> sk_score lib rm (scaled_X_test inp) (y1_test inp) = Inr rs
        \<and> sk_predict lib rm (scaled_X_test inp) = Inr rp
        \<and> sk_f1_score lib (y1_test inp) rp ''weighted'' = Inr rw
      \<longrightarrow> InfoConfusionMatrix
            (keyed_matrix (unique_maintain_order (activity inp)) (y1_test inp) rp)
          \<in> set (fst (snd (remote_main lib h inp model save))))"
proof -
  have a: "InfoConfusionMatrix cm \<in> set (fst (snd (main lib h inp model)))
          \<or> InfoConfusionMatrix cm \<in> set (fst (snd (remote_main lib h inp model save)))
        \<longrightarrow> distinct (unique_maintain_order (activity inp))
         \<and> set (unique_maintain_order (activity inp)) = set (activity inp)
         \<and> sorted_wrt (\<lambda>a b. first_index (activity inp) a < first_index (activity inp) b)
             (unique_maintain_order (activity inp))
         \<and> length cm = length (unique_maintain_order (activity inp))
         \<and> (\<forall>row\<in>set cm. length row = length (unique_maintain_order (activity inp)))
         \<and> (\<exists>y_pred. cm = keyed_matrix (unique_maintain_order (activity inp))
                            (y1_test inp) y_pred)"
    by (rule impI) (rule reported_matrix_keyed)
  have b: "snd (classifier lib (h @ [[]]) model (scaled_X_train inp) (y1_train inp) (length h))
          = Inr m
        \<and> sk_score lib m (scaled_X_test inp) (y1_test inp) = Inr s
        \<and> sk_predict lib m (scaled_X_test inp) = Inr yp
        \<and> sk_f1_score lib (y1_test inp) yp ''micro'' = Inr f
        \<and> sk_f1_score lib (y1_test inp) yp ''weighted'' = Inr fw
      \<longrightarrow> InfoConfusionMatrix
            (keyed_matrix (unique_maintain_order (activity inp)) (y1_test inp) yp)
          \<in> set (fst (snd (main lib h inp model)))"
    by (rule impI, elim conjE) (rule main_reports_matrix)
  have c: "snd (remote_classifier lib (h @ [[]]) model (scaled_X_train inp) (y1_train inp)
               (length h)) = Inr rm
        \<and> sk_score lib rm (scaled_X_test inp) (y1_test inp) = Inr rs
        \<and> sk_predict lib rm (scaled_X_test inp) = Inr rp
        \<and> sk_f1_score lib (y1_test inp) rp ''weighted'' = Inr rw
      \<longrightarrow> InfoConfusionMatrix
            (keyed_matrix (unique_maintain_order (activity inp)) (y1_test inp) rp)
          \<in> set (fst (snd (remote_main lib h inp model save)))"
    by (rule impI, elim conjE) (rule remote_main_reports_matrix)
  show ?thesis
    by (rule conjI [OF a conjI [OF b c]])
qed

text \<open>
  The column walk, run, walk, jump, run gives the label order walk, run, jump and a
  matrix of three rows, in the runs of both modules.
\<close>

theorem confusion_matrix_keyed_by_first_occurrence_witness:
  "InfoConfusionMatrix [[0, 0, 0], [1, 0, 0], [1, 0, 0]]
     \<in> set (fst (snd (main symlib [] example_run ''LGBM'')))
   \<and> InfoConfusionMatrix [[0, 0, 0], [1, 0, 0], [1, 0, 0]]
     \<in> set (fst (snd (remote_main symlib [] example_run ''LGBM'' False)))
   \<and> unique_maintain_order (activity example_run) = [PStr ''walk'', PStr ''run'', PStr ''jump'']
   \<and> length [[0, 0, 0], [1, 0, 0], [1, 0, 0 :: nat]]
       = length (unique_maintain_order (activity example_run))"
proof -
  let ?M = "SymModel (LGBMClassifier [(''n_jobs'', PInt (- 1)), (''random_state'', PInt 42)])
              (Some (scaled_X_train example_run, y1_train example_run,
                     Some [125 / 72, 5 / 2, 125 / 72])) None :: nat sym_model"
  let ?yp = "[PStr ''walk'', PStr ''walk'']"
  note inst = confusion_matrix_keyed_by_first_occurrence
    [where lib = symlib and h = "[]" and inp = example_run and model = "''LGBM''"
       and save = False and cm = "[[0, 0, 0], [1, 0, 0], [1, 0, 0]]"
       and m = ?M and s = 1 and yp = ?yp and f = 1 and fw = 1
       and rm = ?M and rs = 1 and rp = ?yp and rw = 1]
  have c: "snd (classifier symlib ([] @ [[]]) ''LGBM'' (scaled_X_train example_run)
                  (y1_train example_run) (length ([] :: heap))) = Inr ?M"
    by (simp add: classifier_eq classifier_params_eq effective_def setdefault_def
        classifier_models_def class_weights_def symlib_def example_run_def)
  have rc: "snd (remote_classifier symlib ([] @ [[]]) ''LGBM'' (scaled_X_train example_run)
                  (y1_train example_run) (length ([] :: heap))) = Inr ?M"
    by (simp add: remote_classifier_eq classifier_params_eq effective_def setdefault_def
        classifier_models_def class_weights_def symlib_def example_run_def)
  have l: "sk_score symlib ?M (scaled_X_test example_run) (y1_test example_run) = Inr 1"
    "sk_predict symlib ?M (scaled_X_test example_run) = Inr ?yp"
    "sk_f1_score symlib (y1_test example_run) ?yp ''micro'' = Inr 1"
    "sk_f1_score symlib (y1_test example_run) ?yp ''weighted'' = Inr 1"
    by (simp_all add: symlib_def example_run_def)
  have k: "keyed_matrix (unique_maintain_order (activity example_run)) (y1_test example_run) ?yp
             = [[0, 0, 0], [1, 0, 0], [1, 0, 0]]"
    by (simp add: keyed_matrix_def example_run_def)
  have u: "unique_maintain_order (activity example_run)
             = [PStr ''walk'', PStr ''run'', PStr ''jump'']"
    by (simp add: example_run_def)
  have t: "InfoConfusionMatrix [[0, 0, 0], [1, 0, 0], [1, 0, 0]]
             \<in> set (fst (snd (main symlib [] example_run ''LGBM'')))"
    using inst [THEN conjunct2, THEN conjunct1, THEN mp] c l unfolding k by blast
  have r: "InfoConfusionMatrix [[0, 0, 0], [1, 0, 0], [1, 0, 0]]
             \<in> set (fst (snd (remote_main symlib [] example_run ''LGBM'' False)))"
    using inst [THEN conjunct2, THEN conjunct2, THEN mp] rc l unfolding k by blast
  from t r u show ?thesis by simp
qed

section \<open>A regression target without labels\<close>

lemma non_null_rows_all_null:
  "\<forall>v\<in>set y. v = PNone \<Longrightarrow> rows (non_null_rows X y) = []"
  by (auto simp: non_null_rows_def filter_empty_conv dest: set_zip_rightD)

lemma regressor_fails_on_all_null:
  assumes null: "\<forall>v\<in>set y_train. v = PNone"
    and refuse: "\<forall>m X y w. rows X = [] \<longrightarrow> (\<exists>e. sk_fit lib m X y w = Inl e)"
  shows "\<exists>e. snd (regressor lib h name X_train X_test y_train y_test p) = Inl e"
proof (cases "map_of regressor_models name")
  case None
  then show ?thesis by (simp add: regressor_eq)
next
  case (Some mk)
  show ?thesis
  proof (cases "sk_init lib (mk (effective (regressor_params h name p)))")
    case (Inl e)
    with Some show ?thesis by (simp add: regressor_eq)
  next
    case (Inr m0)
    show ?thesis
    proof (cases "length (rows X_train) = length y_train")
      case False
      with Some Inr show ?thesis by (simp add: regressor_eq frame_filter_mask)
    next
      case True
      from refuse non_null_rows_all_null [OF null, of X_train]
      obtain e where "sk_fit lib m0 (non_null_rows X_train y_train) (non_null y_train) None = Inl e"
        by blast
      with Some Inr True show ?thesis by (simp add: regressor_eq frame_filter_mask)
    qed
  qed
qed

lemma regressor_script_fails:
  "snd (regressor lib h name X_train X_test y_train y_test p) = Inl e \<Longrightarrow>
     regressor_script lib h name f X_train X_test y_train y_test p
       = (fst (regressor_params h name p), [], Inl e)"
proof -
  assume e: "snd (regressor lib h name X_train X_test y_train y_test p) = Inl e"
  obtain h' r where r: "regressor lib h name X_train X_test y_train y_test p = (h', r)"
    by (cases "regressor lib h name X_train X_test y_train y_test p")
  from r have "h' = fst (regressor_params h name p)"
    using fst_regressor [of lib h name X_train X_test y_train y_test p] by simp
  moreover from r e have "r = Inl e" by simp
  ultimately show ?thesis
    by (simp add: regressor_script_def r)
qed

lemma regressor_stage_fails:
  "snd (regressor lib h name X_train X_test y_train y_test p) = Inl e \<Longrightarrow>
     regressor_stage lib h run name f X_train X_test y_train y_test p
       = (fst (regressor_params h name p), [StartRun run], Inl e)"
  by (simp add: regressor_stage_def regressor_script_fails emit_def)

lemma snd_bind_log_Inr:
  "snd (bind_log r k) = Inr y \<Longrightarrow> \<exists>x. snd r = Inr x \<and> snd (k x) = Inr y"
  by (cases r; cases "snd r") auto

text \<open>
  \<^verbatim>\<open>_regressor_script\<close> returns five values and \<^verbatim>\<open>main\<close> unpacks four: a regression
  stage that gets as far as the unpacking raises \<^verbatim>\<open>ValueError\<close> there, so no regression
  stage of \<^verbatim>\<open>multipredictor.py\<close> completes.
\<close>

lemma regressor_script_returns_five:
  assumes "snd (snd (regressor_script lib h name f X_train X_test y_train y_test p)) = Inr t"
  shows "length t = 5"
  using assms
  unfolding regressor_script_def Let_def case_prod_unfold
  apply (simp only: fst_conv snd_conv)
  apply (auto dest!: snd_bind_log_Inr)
  done

lemma regressor_stage_never_completes:
  "snd (snd (regressor_stage lib h run name f X_train X_test y_train y_test p)) \<noteq> Inr u"
proof
  assume c: "snd (snd (regressor_stage lib h run name f X_train X_test y_train y_test p)) = Inr u"
  obtain h' evs r where s:
    "regressor_script lib h name f X_train X_test y_train y_test p = (h', evs, r)"
    by (metis prod_cases3)
  show False
  proof (cases r)
    case (Inl e)
    with c s show False by (simp add: regressor_stage_def emit_def)
  next
    case (Inr t)
    with s have "length t = 5"
      using regressor_script_returns_five [of lib h name f X_train X_test y_train y_test p t]
      by simp
    then have "unpack4 t = Inl (ValueError ''values to unpack (expected 4)'')"
      by (auto simp: unpack4_def split: list.splits)
    with c s Inr show False by (simp add: regressor_stage_def emit_def)
  qed
qed

text \<open>
  Claim C6, as amended. When every training label of a regression target is null and the
  library's \<^verbatim>\<open>fit\<close> refuses a frame of zero rows, the regressor call for that target
  fails: it has no check of its own, and the error is the library's or one raised before
  \<^verbatim>\<open>fit\<close> is reached. For the speed target the failure is not confined to a stage of
  \<^verbatim>\<open>main\<close>. If the classification stage raises, the run ends there with that error and
  no regression stage is started. If the classification stage completes, all its events
  have been sent, the speed stage is started, and the run ends with the error of the speed
  regressor: nothing of the incline stage runs.
\<close>

theorem all_null_target_ends_run:
  fixes lib :: "('x, 'm) backend"
  assumes refuse: "\<forall>m X y w. rows X = [] \<longrightarrow> (\<exists>e. sk_fit lib m X y w = Inl e)"
  shows "((\<forall>v\<in>set y_train. v = PNone)
          \<longrightarrow> (\<exists>e. snd (regressor lib hr name X_train X_test y_train y_test p) = Inl e))
       \<and> ((\<forall>v\<in>set (y2_train inp). v = PNone)
          \<longrightarrow> (case activity_stage lib (h @ [[]]) inp model (length h) of
                (h1, evs1, Inl e) \<Rightarrow>
                  main lib h inp model
                    = (h1,
                       [StartRun (run_name inp),
                        SetTag (model @ '' Multipredictor development''), LogParams] @ evs1,
                       Some e)
              | (h1, evs1, Inr u) \<Rightarrow>
                  (\<exists>e. snd (regressor lib h1 model (scaled_X_train inp) (scaled_X_test inp)
                              (y2_train inp) (y2_test inp) (length h)) = Inl e
                     \<and> main lib h inp model
                         = (fst (regressor_params h1 model (length h)),
                            [StartRun (run_name inp),
                             SetTag (model @ '' Multipredictor development''), LogParams]
                              @ evs1 @ [StartRun ''speed regressor''],
                            Some e))))"
proof -
  have a: "(\<forall>v\<in>set y_train. v = PNone)
          \<longrightarrow> (\<exists>e. snd (regressor lib hr name X_train X_test y_train y_test p) = Inl e)"
    using regressor_fails_on_all_null [OF _ refuse] by blast
  have b: "(\<forall>v\<in>set (y2_train inp). v = PNone)
          \<longrightarrow> (case activity_stage lib (h @ [[]]) inp model (length h) of
                (h1, evs1, Inl e) \<Rightarrow>
                  main lib h inp model
                    = (h1,
                       [StartRun (run_name inp),
                        SetTag (model @ '' Multipredictor development''), LogParams] @ evs1,
                       Some e)
              | (h1, evs1, Inr u) \<Rightarrow>
                  (\<exists>e. snd (regressor lib h1 model (scaled_X_train inp) (scaled_X_test inp)
                              (y2_train inp) (y2_test inp) (length h)) = Inl e
                     \<and> main lib h inp model
                         = (fst (regressor_params h1 model (length h)),
                            [StartRun (run_name inp),
                             SetTag (model @ '' Multipredictor development''), LogParams]
                              @ evs1 @ [StartRun ''speed regressor''],
                            Some e)))"
  proof
    assume null: "\<forall>v\<in>set (y2_train inp). v = PNone"
    obtain h1 evs1 r1 where
      act: "activity_stage lib (h @ [[]]) inp model (length h) = (h1, evs1, r1)"
      by (metis prod_cases3)
    show "case activity_stage lib (h @ [[]]) inp model (length h) of
                (h1, evs1, Inl e) \<Rightarrow>
                  main lib h inp model
                    = (h1,
                       [StartRun (run_name inp),
                        SetTag (model @ '' Multipredictor development''), LogParams] @ evs1,
                       Some e)
              | (h1, evs1, Inr u) \<Rightarrow>
                  (\<exists>e. snd (regressor lib h1 model (scaled_X_train inp) (scaled_X_test inp)
                              (y2_train inp) (y2_test inp) (length h)) = Inl e
                     \<and> main lib h inp model
                         = (fst (regressor_params h1 model (length h)),
                            [StartRun (run_name inp),
                             SetTag (model @ '' Multipredictor development''), LogParams]
                              @ evs1 @ [StartRun ''speed regressor''],
                            Some e))"
    proof (cases r1)
      case (Inl e)
      then show ?thesis by (simp add: main_def Let_def act)
    next
      case (Inr u)
      from regressor_fails_on_all_null [OF null refuse]
      obtain e where e: "snd (regressor lib h1 model (scaled_X_train inp) (scaled_X_test inp)
                  (y2_train inp) (y2_test inp) (length h)) = Inl e"
        by blast
      have "main lib h inp model
               = (fst (regressor_params h1 model (length h)),
                  [StartRun (run_name inp), SetTag (model @ '' Multipredictor development''),
                   LogParams] @ evs1 @ [StartRun ''speed regressor''],
                  Some e)"
        by (simp add: main_def Let_def act Inr regressor_stage_fails [OF e])
      with e show ?thesis by (simp add: act Inr)
    qed
  qed
  show ?thesis
    by (rule conjI [OF a b])
qed

lemma symlib_refuses_zero_rows:
  "\<forall>m X y w. rows X = [] \<longrightarrow> (\<exists>e. sk_fit symlib m X y w = Inl e)"
  by (simp add: symlib_def)

lemma example_activity_stage:
  "activity_stage symlib [[]] example_run ''LGBM'' 0
     = ([[], [(''n_jobs'', PInt (- 1)), (''random_state'', PInt 42)]],
        [StartRun ''activity classifier'', LogMetric ''score'' (Val (PFloat 1)),
         LogMetric ''f1_score'' (Val (PFloat 1)), LogMetric ''f1_score_weighted'' (Val (PFloat 1)),
         SaveFig ''LGBM_confusion_matrix.png'',
         InfoConfusionMatrix [[0, 0, 0], [1, 0, 0], [1, 0, 0]],
         LogArtifact (Val (PStr ''LGBM_confusion_matrix.png''))],
        Inr ())"
  by (simp add: activity_stage_def Let_def classifier_eq classifier_params_eq
      effective_def classifier_models_def class_weights_def setdefault_def symlib_def
      example_run_def confusion_matrix_eq keyed_matrix_def emit_def)

lemma standing_activity_stage:
  "activity_stage symlib [[]] standing_run ''LGBM'' 0
     = ([[], [(''n_jobs'', PInt (- 1)), (''random_state'', PInt 42)]],
        [StartRun ''activity classifier''], Inl (KeyError (PStr ''standing'')))"
  by (simp add: activity_stage_def Let_def classifier_eq classifier_params_eq
      effective_def classifier_models_def class_weights_def setdefault_def symlib_def
      standing_run_def emit_def)

lemma example_speed_regressor:
  "snd (regressor symlib [[], [(''n_jobs'', PInt (- 1)), (''random_state'', PInt 42)]]
      ''LGBM'' (scaled_X_train example_run) (scaled_X_test example_run) (y2_train example_run)
      (y2_test example_run) 0) = Inl (ValueError ''0 samples'')"
  by (simp add: regressor_eq regressor_params_eq effective_def rf_defaults_def
      seed_default_def setdefault_def regressor_models_def frame_filter_mask
      non_null_rows_def non_null_def symlib_def example_run_def)

text \<open>
  The small run, where the classification stage completes, and the run of standing rows
  only, where it raises; both with the family \<^verbatim>\<open>"LGBM"\<close>.
\<close>

theorem all_null_target_ends_run_witness:
  "snd (regressor symlib [[], [(''n_jobs'', PInt (- 1)), (''random_state'', PInt 42)]] ''LGBM''
          (scaled_X_train standing_run) (scaled_X_test standing_run) (y3_train standing_run)
          (y3_test standing_run) 0) = Inl (ValueError ''0 samples'')
   \<and> main symlib [] example_run ''LGBM''
       = ([[], [(''n_jobs'', PInt (- 1)), (''random_state'', PInt 42)],
           [(''random_state'', PInt 42), (''n_jobs'', PInt (- 1)),
            (''class_weight'', PStr ''balanced'')]],
          [StartRun ''P1'', SetTag ''LGBM Multipredictor development'', LogParams]
            @ fst (snd (activity_stage symlib [[]] example_run ''LGBM'' 0))
            @ [StartRun ''speed regressor''],
          Some (ValueError ''0 samples''))
   \<and> main symlib [] standing_run ''LGBM''
       = ([[], [(''n_jobs'', PInt (- 1)), (''random_state'', PInt 42)]],
          [StartRun ''P1'', SetTag ''LGBM Multipredictor development'', LogParams,
           StartRun ''activity classifier''],
          Some (KeyError (PStr ''standing'')))"
proof -
  let ?h1 = "[[], [(''n_jobs'', PInt (- 1)), (''random_state'', PInt 42)]] :: heap"
  note ex = all_null_target_ends_run
    [OF symlib_refuses_zero_rows,
     where h = "[]" and inp = example_run and model = "''LGBM''" and hr = ?h1
       and name = "''LGBM''" and X_train = "scaled_X_train standing_run"
       and X_test = "scaled_X_test standing_run" and y_train = "y3_train standing_run"
       and y_test = "y3_test standing_run" and p = 0]
  note st = all_null_target_ends_run
    [OF symlib_refuses_zero_rows,
     where h = "[]" and inp = standing_run and model = "''LGBM''"]
  have n3: "\<forall>v\<in>set (y3_train standing_run). v = PNone"
    by (simp add: standing_run_def)
  have n2: "\<forall>v\<in>set (y2_train example_run). v = PNone"
    by (simp add: example_run_def)
  have n2s: "\<forall>v\<in>set (y2_train standing_run). v = PNone"
    by (simp add: standing_run_def)
  have r3: "regressor symlib ?h1 ''LGBM''
          (scaled_X_train standing_run) (scaled_X_test standing_run) (y3_train standing_run)
          (y3_test standing_run) 0
        = (fst (regressor_params ?h1 ''LGBM'' 0), Inl (ValueError ''0 samples''))"
    by (simp add: regressor_eq regressor_params_eq effective_def rf_defaults_def
        seed_default_def setdefault_def regressor_models_def frame_filter_mask
        non_null_rows_def non_null_def symlib_def standing_run_def)
  from ex [THEN conjunct1, THEN mp, OF n3]
  have a: "snd (regressor symlib ?h1 ''LGBM''
          (scaled_X_train standing_run) (scaled_X_test standing_run) (y3_train standing_run)
          (y3_test standing_run) 0) = Inl (ValueError ''0 samples'')"
    by (simp add: r3)
  from ex [THEN conjunct2, THEN mp, OF n2]
  have b: "main symlib [] example_run ''LGBM''
       = ([[], [(''n_jobs'', PInt (- 1)), (''random_state'', PInt 42)],
           [(''random_state'', PInt 42), (''n_jobs'', PInt (- 1)),
            (''class_weight'', PStr ''balanced'')]],
          [StartRun ''P1'', SetTag ''LGBM Multipredictor development'', LogParams]
            @ fst (snd (activity_stage symlib [[]] example_run ''LGBM'' 0))
            @ [StartRun ''speed regressor''],
          Some (ValueError ''0 samples''))"
    by (simp add: example_activity_stage example_speed_regressor regressor_params_eq
        rf_defaults_def seed_default_def setdefault_def)
      (simp add: example_run_def)
  from st [THEN conjunct2, THEN mp, OF n2s]
  have c: "main symlib [] standing_run ''LGBM''
       = ([[], [(''n_jobs'', PInt (- 1)), (''random_state'', PInt 42)]],
          [StartRun ''P1'', SetTag ''LGBM Multipredictor development'', LogParams,
           StartRun ''activity classifier''],
          Some (KeyError (PStr ''standing'')))"
    by (simp add: standing_activity_stage) (simp add: standing_run_def)
  show ?thesis
    by (rule conjI [OF a conjI [OF b c]])
qed

text \<open>
  Claim C6 as stated fails on both runs. On the run of standing rows only, the example of
  the specification, every speed and incline label is null and the classification stage
  does not complete: \<^verbatim>\<open>"standing"\<close> is not in the weight table, the lookup raises
  \<^verbatim>\<open>KeyError\<close> before any estimator is built, and no regression stage is started. On the
  small run every speed label is null and two incline training labels are not: the
  classification stage completes, the speed stage fails with the library's error, the
  error ends the run, and the incline stage is not started.
\<close>

theorem incline_stage_not_run_counterexample:
  "y2_train standing_run = [PNone, PNone, PNone]
   \<and> y2_test standing_run = [PNone, PNone]
   \<and> snd (snd (main symlib [] standing_run ''LGBM'')) = Some (KeyError (PStr ''standing''))
   \<and> [s. StartRun s \<leftarrow> fst (snd (main symlib [] standing_run ''LGBM''))]
       = [''P1'', ''activity classifier'']
   \<and> y2_train example_run = [PNone, PNone, PNone]
   \<and> y2_test example_run = [PNone, PNone]
   \<and> y3_train example_run = [PFloat 1, PNone, PFloat 3]
   \<and> snd (snd (main symlib [] example_run ''LGBM'')) = Some (ValueError ''0 samples'')
   \<and> [s. StartRun s \<leftarrow> fst (snd (main symlib [] example_run ''LGBM''))]
       = [''P1'', ''activity classifier'', ''speed regressor'']"
proof -
  have s: "main symlib [] standing_run ''LGBM''
       = ([[], [(''n_jobs'', PInt (- 1)), (''random_state'', PInt 42)]],
          [StartRun (run_name standing_run), SetTag ''LGBM Multipredictor development'',
           LogParams, StartRun ''activity classifier''],
          Some (KeyError (PStr ''standing'')))"
    by (simp add: main_def Let_def standing_activity_stage)
  have e: "main symlib [] example_run ''LGBM''
     = (fst (regressor_params [[], [(''n_jobs'', PInt (- 1)), (''random_state'', PInt 42)]]
               ''LGBM'' 0),
        [StartRun (run_name example_run), SetTag ''LGBM Multipredictor development'', LogParams,
         StartRun ''activity classifier'', LogMetric ''score'' (Val (PFloat 1)),
         LogMetric ''f1_score'' (Val (PFloat 1)), LogMetric ''f1_score_weighted'' (Val (PFloat 1)),
         SaveFig ''LGBM_confusion_matrix.png'',
         InfoConfusionMatrix [[0, 0, 0], [1, 0, 0], [1, 0, 0]],
         LogArtifact (Val (PStr ''LGBM_confusion_matrix.png'')),
         StartRun ''speed regressor''],
        Some (ValueError ''0 samples''))"
    by (simp add: main_def Let_def example_activity_stage
        regressor_stage_fails [OF example_speed_regressor])
  have 1: "y2_train standing_run = [PNone, PNone, PNone] \<and> y2_test standing_run = [PNone, PNone]"
    by (simp add: standing_run_def)
  have 2: "snd (snd (main symlib [] standing_run ''LGBM'')) = Some (KeyError (PStr ''standing''))
     \<and> [s. StartRun s \<leftarrow> fst (snd (main symlib [] standing_run ''LGBM''))]
       = [''P1'', ''activity classifier'']"
    by (simp add: s) (simp add: standing_run_def)
  have 3: "y2_train example_run = [PNone, PNone, PNone] \<and> y2_test example_run = [PNone, PNone]
     \<and> y3_train example_run = [PFloat 1, PNone, PFloat 3]"
    by (simp add: example_run_def)
  have 4: "snd (snd (main symlib [] example_run ''LGBM'')) = Some (ValueError ''0 samples'')
   \<and> [s. StartRun s \<leftarrow> fst (snd (main symlib [] example_run ''LGBM''))]
       = [''P1'', ''activity classifier'', ''speed regressor'']"
    by (simp add: e) (simp add: example_run_def)
  from 1 2 3 4 show ?thesis by (simp only: simp_thms)
qed

end
